theory Spec2Isabelle
  imports Complex_Main "HOL-Library.Signed_Division" "HOL-Library.Log_Nat"
begin

section \<open>The gym registration gRPC server\<close>

text \<open>
  A shallow embedding of the server half of \<^verbatim>\<open>grpc_client.js\<close> (the part that starts
  with the second \<^verbatim>\<open>require('@grpc/grpc-js')\<close>): the helper functions
  \<^verbatim>\<open>authenticateToken\<close>, \<^verbatim>\<open>formatTrainee\<close>, \<^verbatim>\<open>convertTimestamp\<close>,
  \<^verbatim>\<open>convertFromTimestamp\<close>, \<^verbatim>\<open>formatRoutine\<close>, \<^verbatim>\<open>formatRegistration\<close> and the
  handlers of the five services. A handler takes the fields it destructures from
  \<^verbatim>\<open>call.request\<close> and the server state, and returns what it passes to \<^verbatim>\<open>callback\<close>
  (\<open>Inl\<close> the error object, \<open>Inr\<close> the response) together with the new state.
\<close>

subsection \<open>Errors\<close>

datatype grpc_status = INVALID_ARGUMENT | NOT_FOUND | ALREADY_EXISTS | UNAUTHENTICATED | INTERNAL

text \<open>
  An error object, thrown or handed to the callback: \<open>GrpcError c m\<close> is
  \<^verbatim>\<open>{code: grpc.status.c, message: m}\<close>; \<open>PrismaError c\<close> is a known request error of the
  storage client with its string code (\<^verbatim>\<open>'P2025'\<close>: record not found, \<^verbatim>\<open>'P2002'\<close>: unique
  constraint); \<open>JsError\<close> is any other exception, which has no \<^verbatim>\<open>code\<close> property.
\<close>

datatype err = GrpcError grpc_status string | PrismaError string | JsError

definition internal :: err where
  "internal = GrpcError INTERNAL ''Internal server error''"

text \<open>\<^verbatim>\<open>catch (error) { callback(error.code ? error : {code: INTERNAL, ...}) }\<close>\<close>

definition catch_code :: "err \<Rightarrow> err" where
  "catch_code error =
     (case error of
        GrpcError c m \<Rightarrow> error
      | PrismaError code \<Rightarrow> (if code = '''' then internal else error)
      | JsError \<Rightarrow> internal)"

text \<open>
  \<^verbatim>\<open>catch (error) { if (error.code === 'P2025') return callback({code: NOT_FOUND, message});
  callback({code: INTERNAL, ...}) }\<close> (the Update handlers of trainee, workout, registration)
\<close>

definition catch_P2025_internal :: "string \<Rightarrow> err \<Rightarrow> err" where
  "catch_P2025_internal message error =
     (if error = PrismaError ''P2025'' then GrpcError NOT_FOUND message else internal)"

text \<open>
  \<^verbatim>\<open>catch (error) { if (error.code === 'P2025') return callback({code: NOT_FOUND, message});
  callback(error.code ? error : {code: INTERNAL, ...}) }\<close> (the Delete handlers)
\<close>

definition catch_P2025_code :: "string \<Rightarrow> err \<Rightarrow> err" where
  "catch_P2025_code message error =
     (if error = PrismaError ''P2025'' then GrpcError NOT_FOUND message else catch_code error)"

subsection \<open>Timestamps\<close>

text \<open>
  A JavaScript \<^verbatim>\<open>Date\<close> is its time value, an integer number of milliseconds since the
  epoch, or the invalid date. \<^verbatim>\<open>new Date(v)\<close> of a number truncates \<open>v\<close> towards zero and
  is invalid beyond \<open>8.64e15\<close> milliseconds.
\<close>

datatype date = Date int | InvalidDate

definition new_Date :: "real \<Rightarrow> date" where
  "new_Date v =
     (if \<bar>v\<bar> \<le> 8640000000000000
      then Date (if v < 0 then \<lceil>v\<rceil> else \<lfloor>v\<rfloor>)
      else InvalidDate)"

text \<open>
  A JavaScript number is a double: a significand of 53 bits and a power of two. The result
  of an arithmetic operation, and of reading a decimal string, is the exact value rounded
  to the nearest double, a tie going to the even significand. \<open>ulp_exponent x\<close> is an
  exponent \<open>k\<close> for which \<open>\<bar>x\<bar> / 2^k\<close> lies between \<open>2^52\<close> and \<open>2^53\<close>, where the doubles
  are the integers. The bounds of the exponent are left out: a sum too large for a double
  is also too large for a \<^verbatim>\<open>Date\<close>, and the numbers met here are too large to be subnormal.
\<close>

definition round_half_even :: "real \<Rightarrow> int" where
  "round_half_even m =
     (let f = \<lfloor>m\<rfloor>
      in if m - of_int f < 1 / 2 then f
         else if 1 / 2 < m - of_int f then f + 1
         else if even f then f else f + 1)"

definition ulp_exponent :: "real \<Rightarrow> int" where
  "ulp_exponent x =
     (if 1 \<le> \<bar>x\<bar> then bitlen \<lfloor>\<bar>x\<bar>\<rfloor> - 53 else - bitlen \<lfloor>1 / \<bar>x\<bar>\<rfloor> - 52)"

definition Number_value :: "real \<Rightarrow> real" where
  "Number_value x =
     (if x = 0 then 0
      else sgn x * of_int (round_half_even (\<bar>x\<bar> / 2 powi ulp_exponent x))
             * 2 powi ulp_exponent x)"

record timestamp =
  seconds :: int
  nanos :: int

text \<open>
  \<^verbatim>\<open>convertTimestamp(date)\<close>: \<open>None\<close> is \<^verbatim>\<open>null\<close>; the argument is a date read from
  storage, given by its time value. \<^verbatim>\<open>Math.floor(t / 1000)\<close> is \<open>t div 1000\<close>; the
  JavaScript remainder \<^verbatim>\<open>t % 1000\<close> takes the sign of \<open>t\<close>, which is \<open>t smod 1000\<close>.
\<close>

definition convertTimestamp :: "int option \<Rightarrow> timestamp option" where
  "convertTimestamp date =
     (case date of
        None \<Rightarrow> None
      | Some t \<Rightarrow> Some \<lparr>seconds = t div 1000, nanos = (t smod 1000) * 1000000\<rparr>)"

text \<open>
  \<^verbatim>\<open>convertFromTimestamp(timestamp)\<close> is
  \<^verbatim>\<open>new Date(timestamp.seconds * 1000 + timestamp.nanos / 1000000)\<close>. The \<^verbatim>\<open>seconds\<close> arrive
  as a decimal string (the messages are loaded with \<^verbatim>\<open>longs: String\<close>), which the product
  reads as a number; the \<^verbatim>\<open>nanos\<close> are an \<^verbatim>\<open>int32\<close>, a number as they are. The product,
  the quotient and the sum are rounded each.
\<close>

definition convertFromTimestamp :: "timestamp option \<Rightarrow> date option" where
  "convertFromTimestamp ts =
     (case ts of
        None \<Rightarrow> None
      | Some t \<Rightarrow>
          Some (new_Date
                  (Number_value
                     (Number_value (Number_value (real_of_int (seconds t)) * 1000)
                      + Number_value (real_of_int (nanos t) / 1000000)))))"

subsection \<open>Objects and stored rows\<close>

text \<open>
  The trainee objects that the handlers pass around are plain JavaScript objects: a list
  of fields in insertion order. Which fields an object has is what \<^verbatim>\<open>formatTrainee\<close> is
  about, so it is kept explicit.
\<close>

datatype jsval = JString string | JDate int | JUndefined

type_synonym jsobj = "(string \<times> jsval) list"

definition obj_get :: "jsobj \<Rightarrow> string \<Rightarrow> jsval" where
  "obj_get obj k = (case map_of obj k of None \<Rightarrow> JUndefined | Some v \<Rightarrow> v)"

fun obj_set :: "jsobj \<Rightarrow> string \<Rightarrow> jsval \<Rightarrow> jsobj" where
  "obj_set [] k v = [(k, v)]"
| "obj_set ((k', v') # obj) k v =
     (if k' = k then (k, v) # obj else (k', v') # obj_set obj k v)"

definition has_field :: "jsobj \<Rightarrow> string \<Rightarrow> bool" where
  "has_field obj k = (k \<in> fst ` set obj)"

text \<open>
  \<^verbatim>\<open>formatTrainee(trainee)\<close>: the rest pattern \<^verbatim>\<open>{ password, ...traineeWithoutPassword }\<close>
  copies every field but \<^verbatim>\<open>password\<close>; the result adds \<^verbatim>\<open>created_at\<close> and \<^verbatim>\<open>updated_at\<close>.
\<close>

definition formatTrainee :: "jsobj option \<Rightarrow> jsobj option" where
  "formatTrainee trainee =
     (case trainee of
        None \<Rightarrow> None
      | Some t \<Rightarrow>
          let traineeWithoutPassword = filter (\<lambda>kv. fst kv \<noteq> ''password'') t
          in Some (obj_set (obj_set traineeWithoutPassword
                     ''created_at'' (obj_get t ''createdAt''))
                     ''updated_at'' (obj_get t ''updatedAt'')))"

text \<open>
  Modelled from the spec: the storage schema (\<^verbatim>\<open>prisma/schema.prisma\<close>) is not part of the
  sources. The rows follow section 3 of the specification and the field names the
  handlers use; identifiers are strings generated by the storage engine, \<^verbatim>\<open>createdAt\<close> is
  set on creation and \<^verbatim>\<open>updatedAt\<close> on creation and on every update, the trainee's email is
  unique (the handlers look trainees up with \<^verbatim>\<open>findUnique({where: {email}})\<close>), a trainee
  may own any number of routines, and deleting a trainee leaves its routines and
  registrations in place.
\<close>

record trainee =
  t_id :: string
  t_name :: string
  t_email :: string
  t_password :: string
  t_timezone :: string
  t_createdAt :: int
  t_updatedAt :: int

record workout =
  w_id :: string
  w_name :: string
  w_duration :: int
  w_description :: string
  w_color :: string
  w_createdAt :: int
  w_updatedAt :: int

record timeslot =
  ts_day :: string
  ts_start_time :: string
  ts_end_time :: string

text \<open>
  The availability of a routine is stored as the text \<^verbatim>\<open>JSON.stringify\<close> gives and read
  back with \<^verbatim>\<open>JSON.parse\<close>; on a list of time slots the two are inverse, and the text is
  kept abstract.
\<close>

datatype json = JSON "timeslot list"

definition JSON_stringify :: "timeslot list \<Rightarrow> json" where
  "JSON_stringify availability = JSON availability"

fun JSON_parse :: "json \<Rightarrow> timeslot list" where
  "JSON_parse (JSON availability) = availability"

record routine =
  r_id :: string
  r_userId :: string
  r_availability :: json
  r_createdAt :: int
  r_updatedAt :: int

record registration =
  g_id :: string
  g_eventId :: string
  g_userId :: string
  g_inviteeEmail :: string
  g_startTime :: int
  g_endTime :: "int option"
  g_status :: string
  g_createdAt :: int
  g_updatedAt :: int

text \<open>The object the storage client returns for a trainee row, and a \<^verbatim>\<open>select\<close> on it.\<close>

definition trainee_object :: "trainee \<Rightarrow> jsobj" where
  "trainee_object t =
     [(''id'', JString (t_id t)), (''name'', JString (t_name t)),
      (''email'', JString (t_email t)), (''password'', JString (t_password t)),
      (''timezone'', JString (t_timezone t)),
      (''createdAt'', JDate (t_createdAt t)), (''updatedAt'', JDate (t_updatedAt t))]"

definition select_fields :: "string list \<Rightarrow> jsobj \<Rightarrow> jsobj" where
  "select_fields ks obj = filter (\<lambda>kv. fst kv \<in> set ks) obj"

text \<open>
  \<^verbatim>\<open>select: {id: true, name: true, email: true, timezone: true, createdAt: true,
  updatedAt: true}\<close> of the trainee handlers, and the \<^verbatim>\<open>include: {trainee: {select: ...}}\<close>
  of the routine and registration handlers.
\<close>

definition trainee_select :: "string list" where
  "trainee_select = [''id'', ''name'', ''email'', ''timezone'', ''createdAt'', ''updatedAt'']"

definition include_select :: "string list" where
  "include_select = [''id'', ''name'', ''email'', ''createdAt'', ''updatedAt'']"

subsection \<open>The server state and its environment\<close>

record userData =
  u_traineeId :: string
  u_email :: string

text \<open>
  What a handler reads from outside the program at the time of the call: the clock and the
  identifier the storage engine gives a new row, and the token library with the secret
  \<^verbatim>\<open>JWT_SECRET\<close> applied: \<open>jwt_verify\<close> is \<^verbatim>\<open>jwt.verify(token, JWT_SECRET)\<close> (\<open>None\<close> when
  it throws: malformed, expired, bad signature), \<open>jwt_sign\<close> is
  \<^verbatim>\<open>jwt.sign(payload, JWT_SECRET, {expiresIn: '2h'})\<close> (\<open>None\<close> when it throws).
\<close>

record env =
  now :: int
  fresh_id :: string
  jwt_verify :: "string \<Rightarrow> userData option"
  jwt_sign :: "userData \<Rightarrow> string option"

record server =
  trainees :: "trainee list"
  workouts :: "workout list"
  routines :: "routine list"
  registrations :: "registration list"
  revokedTokens :: "string set"

text \<open>\<^verbatim>\<open>authenticateToken(token)\<close>: a string is falsy exactly when it is empty.\<close>

definition authenticateToken :: "env \<Rightarrow> server \<Rightarrow> string \<Rightarrow> err + userData" where
  "authenticateToken e s token =
     (if token = '''' then Inl (GrpcError UNAUTHENTICATED ''Authorization token missing'')
      else if token \<in> revokedTokens s then Inl (GrpcError UNAUTHENTICATED ''Token is revoked'')
      else case jwt_verify e token of
             None \<Rightarrow> Inl (GrpcError UNAUTHENTICATED ''Invalid token'')
           | Some decoded \<Rightarrow> Inr decoded)"

subsection \<open>Storage operations\<close>

text \<open>
  Modelled from the spec: the storage engine is an external collaborator ``assumed to
  expose find/create/update/delete/count primitives''. A table is the list of its rows in
  insertion order. \<^verbatim>\<open>findUnique\<close> and \<^verbatim>\<open>findFirst\<close> are \<^const>\<open>find\<close>; \<^verbatim>\<open>update\<close> and
  \<^verbatim>\<open>delete\<close> throw \<^verbatim>\<open>P2025\<close> when no row has the identifier; \<^verbatim>\<open>create\<close> and \<^verbatim>\<open>update\<close>
  throw \<^verbatim>\<open>P2002\<close> on a unique constraint; an invalid date is refused with an exception that
  has no code.
\<close>

text \<open>
  \<^verbatim>\<open>findMany({skip, take})\<close>: a negative \<^verbatim>\<open>skip\<close> is refused; a negative \<^verbatim>\<open>take\<close> counts
  from the end of the table.
\<close>

definition findMany_skip_take :: "int \<Rightarrow> int \<Rightarrow> 'a list \<Rightarrow> err + 'a list" where
  "findMany_skip_take skip tk rows =
     (if skip < 0 then Inl JsError
      else if 0 \<le> tk then Inr (take (nat tk) (drop (nat skip) rows))
      else Inr (rev (take (nat (- tk)) (drop (nat skip) (rev rows)))))"

text \<open>\<^verbatim>\<open>orderBy: {createdAt: 'desc'}\<close>, rows of equal time in table order.\<close>

definition orderBy_desc :: "('a \<Rightarrow> int) \<Rightarrow> 'a list \<Rightarrow> 'a list" where
  "orderBy_desc createdAt rows = sort_key (\<lambda>r. - createdAt r) rows"

definition trainee_create ::
  "env \<Rightarrow> string \<Rightarrow> string \<Rightarrow> string \<Rightarrow> string \<Rightarrow> trainee list \<Rightarrow> err + trainee \<times> trainee list" where
  "trainee_create e name email password timezone rows =
     (if list_ex (\<lambda>t. t_email t = email) rows \<or> list_ex (\<lambda>t. t_id t = fresh_id e) rows
      then Inl (PrismaError ''P2002'')
      else let t = \<lparr>t_id = fresh_id e, t_name = name, t_email = email, t_password = password,
                      t_timezone = timezone, t_createdAt = now e, t_updatedAt = now e\<rparr>
           in Inr (t, rows @ [t]))"

text \<open>The object \<^verbatim>\<open>updateData\<close> of \<^verbatim>\<open>UpdateTrainee\<close>: \<open>None\<close> is a key that was not set.\<close>

record trainee_data =
  td_name :: "string option"
  td_email :: "string option"
  td_password :: "string option"
  td_timezone :: "string option"

definition trainee_patch :: "env \<Rightarrow> trainee_data \<Rightarrow> trainee \<Rightarrow> trainee" where
  "trainee_patch e d t =
     t\<lparr>t_name := (case td_name d of None \<Rightarrow> t_name t | Some v \<Rightarrow> v),
       t_email := (case td_email d of None \<Rightarrow> t_email t | Some v \<Rightarrow> v),
       t_password := (case td_password d of None \<Rightarrow> t_password t | Some v \<Rightarrow> v),
       t_timezone := (case td_timezone d of None \<Rightarrow> t_timezone t | Some v \<Rightarrow> v),
       t_updatedAt := now e\<rparr>"

definition trainee_update ::
  "env \<Rightarrow> string \<Rightarrow> trainee_data \<Rightarrow> trainee list \<Rightarrow> err + trainee \<times> trainee list" where
  "trainee_update e tid d rows =
     (case find (\<lambda>t. t_id t = tid) rows of
        None \<Rightarrow> Inl (PrismaError ''P2025'')
      | Some old \<Rightarrow>
          if (case td_email d of
                None \<Rightarrow> False
              | Some v \<Rightarrow> list_ex (\<lambda>t. t_email t = v \<and> t_id t \<noteq> tid) rows)
          then Inl (PrismaError ''P2002'')
          else Inr (trainee_patch e d old,
                    map (\<lambda>t. if t_id t = tid then trainee_patch e d t else t) rows))"

definition trainee_delete :: "string \<Rightarrow> trainee list \<Rightarrow> err + trainee list" where
  "trainee_delete tid rows =
     (if list_ex (\<lambda>t. t_id t = tid) rows
      then Inr (filter (\<lambda>t. t_id t \<noteq> tid) rows)
      else Inl (PrismaError ''P2025''))"

definition workout_create ::
  "env \<Rightarrow> string \<Rightarrow> int \<Rightarrow> string \<Rightarrow> string \<Rightarrow> workout list \<Rightarrow> err + workout \<times> workout list" where
  "workout_create e name duration description color rows =
     (if list_ex (\<lambda>w. w_id w = fresh_id e) rows then Inl (PrismaError ''P2002'')
      else let w = \<lparr>w_id = fresh_id e, w_name = name, w_duration = duration,
                      w_description = description, w_color = color,
                      w_createdAt = now e, w_updatedAt = now e\<rparr>
           in Inr (w, rows @ [w]))"

text \<open>The object \<^verbatim>\<open>updateData\<close> of \<^verbatim>\<open>UpdateWorkout\<close>.\<close>

record workout_data =
  wd_name :: "string option"
  wd_duration :: "int option"
  wd_description :: "string option"
  wd_color :: "string option"

definition workout_patch :: "env \<Rightarrow> workout_data \<Rightarrow> workout \<Rightarrow> workout" where
  "workout_patch e d w =
     w\<lparr>w_name := (case wd_name d of None \<Rightarrow> w_name w | Some v \<Rightarrow> v),
       w_duration := (case wd_duration d of None \<Rightarrow> w_duration w | Some v \<Rightarrow> v),
       w_description := (case wd_description d of None \<Rightarrow> w_description w | Some v \<Rightarrow> v),
       w_color := (case wd_color d of None \<Rightarrow> w_color w | Some v \<Rightarrow> v),
       w_updatedAt := now e\<rparr>"

definition workout_update ::
  "env \<Rightarrow> string \<Rightarrow> workout_data \<Rightarrow> workout list \<Rightarrow> err + workout \<times> workout list" where
  "workout_update e wid d rows =
     (case find (\<lambda>w. w_id w = wid) rows of
        None \<Rightarrow> Inl (PrismaError ''P2025'')
      | Some old \<Rightarrow>
          Inr (workout_patch e d old,
               map (\<lambda>w. if w_id w = wid then workout_patch e d w else w) rows))"

definition workout_delete :: "string \<Rightarrow> workout list \<Rightarrow> err + workout list" where
  "workout_delete wid rows =
     (if list_ex (\<lambda>w. w_id w = wid) rows
      then Inr (filter (\<lambda>w. w_id w \<noteq> wid) rows)
      else Inl (PrismaError ''P2025''))"

definition routine_create ::
  "env \<Rightarrow> string \<Rightarrow> json \<Rightarrow> routine list \<Rightarrow> err + routine \<times> routine list" where
  "routine_create e userId availability rows =
     (if list_ex (\<lambda>r. r_id r = fresh_id e) rows then Inl (PrismaError ''P2002'')
      else let r = \<lparr>r_id = fresh_id e, r_userId = userId, r_availability = availability,
                      r_createdAt = now e, r_updatedAt = now e\<rparr>
           in Inr (r, rows @ [r]))"

text \<open>
  \<^verbatim>\<open>updateMany({where: {userId}, data: {availability}})\<close> and
  \<^verbatim>\<open>deleteMany({where: {userId}})\<close>: every row that matches, with the count of them.
\<close>

definition routine_updateMany :: "env \<Rightarrow> string \<Rightarrow> json \<Rightarrow> routine list \<Rightarrow> nat \<times> routine list" where
  "routine_updateMany e userId availability rows =
     (length (filter (\<lambda>r. r_userId r = userId) rows),
      map (\<lambda>r. if r_userId r = userId
                then r\<lparr>r_availability := availability, r_updatedAt := now e\<rparr> else r) rows)"

definition routine_deleteMany :: "string \<Rightarrow> routine list \<Rightarrow> nat \<times> routine list" where
  "routine_deleteMany userId rows =
     (length (filter (\<lambda>r. r_userId r = userId) rows),
      filter (\<lambda>r. r_userId r \<noteq> userId) rows)"

text \<open>
  \<^verbatim>\<open>include: {trainee: {select: {id, name, email, createdAt, updatedAt}}}\<close>: the owner's
  object, \<open>None\<close> (\<^verbatim>\<open>null\<close>) when no trainee has that identifier.
\<close>

definition include_trainee :: "trainee list \<Rightarrow> string \<Rightarrow> jsobj option" where
  "include_trainee rows userId =
     map_option (\<lambda>t. select_fields include_select (trainee_object t))
       (find (\<lambda>t. t_id t = userId) rows)"

definition registration_create ::
  "env \<Rightarrow> string \<Rightarrow> string \<Rightarrow> string \<Rightarrow> date option \<Rightarrow> date option \<Rightarrow> string \<Rightarrow>
   registration list \<Rightarrow> err + registration \<times> registration list" where
  "registration_create e eventId userId inviteeEmail startTime endTime status rows =
     (case startTime of
        Some (Date t) \<Rightarrow>
          if endTime = Some InvalidDate then Inl JsError
          else if list_ex (\<lambda>g. g_id g = fresh_id e) rows then Inl (PrismaError ''P2002'')
          else let g = \<lparr>g_id = fresh_id e, g_eventId = eventId, g_userId = userId,
                          g_inviteeEmail = inviteeEmail, g_startTime = t,
                          g_endTime = (case endTime of Some (Date t') \<Rightarrow> Some t' | _ \<Rightarrow> None),
                          g_status = status, g_createdAt = now e, g_updatedAt = now e\<rparr>
               in Inr (g, rows @ [g])
      | _ \<Rightarrow> Inl JsError)"

text \<open>
  The object \<^verbatim>\<open>updateData\<close> of \<^verbatim>\<open>UpdateRegistration\<close>: for the two times, \<open>Some None\<close> is
  the key set to \<^verbatim>\<open>null\<close>.
\<close>

record registration_data =
  gd_eventId :: "string option"
  gd_userId :: "string option"
  gd_inviteeEmail :: "string option"
  gd_startTime :: "date option option"
  gd_endTime :: "date option option"
  gd_status :: "string option"

definition registration_patch :: "env \<Rightarrow> registration_data \<Rightarrow> registration \<Rightarrow> registration" where
  "registration_patch e d g =
     g\<lparr>g_eventId := (case gd_eventId d of None \<Rightarrow> g_eventId g | Some v \<Rightarrow> v),
       g_userId := (case gd_userId d of None \<Rightarrow> g_userId g | Some v \<Rightarrow> v),
       g_inviteeEmail := (case gd_inviteeEmail d of None \<Rightarrow> g_inviteeEmail g | Some v \<Rightarrow> v),
       g_startTime := (case gd_startTime d of Some (Some (Date t)) \<Rightarrow> t | _ \<Rightarrow> g_startTime g),
       g_endTime := (case gd_endTime d of
                       None \<Rightarrow> g_endTime g
                     | Some None \<Rightarrow> None
                     | Some (Some (Date t)) \<Rightarrow> Some t
                     | Some (Some InvalidDate) \<Rightarrow> g_endTime g),
       g_status := (case gd_status d of None \<Rightarrow> g_status g | Some v \<Rightarrow> v),
       g_updatedAt := now e\<rparr>"

definition registration_update ::
  "env \<Rightarrow> string \<Rightarrow> registration_data \<Rightarrow> registration list \<Rightarrow>
   err + registration \<times> registration list" where
  "registration_update e gid d rows =
     (if gd_startTime d = Some None \<or> gd_startTime d = Some (Some InvalidDate)
         \<or> gd_endTime d = Some (Some InvalidDate)
      then Inl JsError
      else case find (\<lambda>g. g_id g = gid) rows of
             None \<Rightarrow> Inl (PrismaError ''P2025'')
           | Some old \<Rightarrow>
               Inr (registration_patch e d old,
                    map (\<lambda>g. if g_id g = gid then registration_patch e d g else g) rows))"

definition registration_delete :: "string \<Rightarrow> registration list \<Rightarrow> err + registration list" where
  "registration_delete gid rows =
     (if list_ex (\<lambda>g. g_id g = gid) rows
      then Inr (filter (\<lambda>g. g_id g \<noteq> gid) rows)
      else Inl (PrismaError ''P2025''))"

subsection \<open>Session service\<close>

datatype CreateSessionResponse = CreateSessionResponse string "jsobj option"

datatype CheckSessionResponse = CheckSessionResponse bool "jsobj option"

definition CreateSession ::
  "env \<Rightarrow> string \<Rightarrow> string \<Rightarrow> server \<Rightarrow> (err + CreateSessionResponse) \<times> server" where
  "CreateSession e email password s =
     (if email = '''' \<or> password = ''''
      then (Inl (GrpcError INVALID_ARGUMENT ''Email and password are required''), s)
      else case find (\<lambda>t. t_email t = email) (trainees s) of
             None \<Rightarrow> (Inl (GrpcError UNAUTHENTICATED ''Invalid credentials''), s)
           | Some trainee \<Rightarrow>
               if t_password trainee \<noteq> password
               then (Inl (GrpcError UNAUTHENTICATED ''Invalid credentials''), s)
               else (case jwt_sign e \<lparr>u_traineeId = t_id trainee, u_email = t_email trainee\<rparr> of
                      None \<Rightarrow> (Inl internal, s)
                    | Some token \<Rightarrow>
                        (Inr (CreateSessionResponse token
                                (formatTrainee (Some (trainee_object trainee)))), s)))"

definition DeleteSession :: "env \<Rightarrow> string \<Rightarrow> server \<Rightarrow> (err + string) \<times> server" where
  "DeleteSession e token s =
     (case authenticateToken e s token of
        Inl error \<Rightarrow> (Inl error, s)
      | Inr decoded \<Rightarrow>
          (Inr ''Successfully logged out'',
           s\<lparr>revokedTokens := insert token (revokedTokens s)\<rparr>))"

definition CheckSession ::
  "env \<Rightarrow> string \<Rightarrow> server \<Rightarrow> (err + CheckSessionResponse) \<times> server" where
  "CheckSession e token s =
     (case authenticateToken e s token of
        Inl error \<Rightarrow> (Inl error, s)
      | Inr decoded \<Rightarrow>
          (case find (\<lambda>t. t_id t = u_traineeId decoded) (trainees s) of
             None \<Rightarrow> (Inl (GrpcError NOT_FOUND ''Trainee not found''), s)
           | Some trainee \<Rightarrow>
               (Inr (CheckSessionResponse True
                       (formatTrainee (Some (trainee_object trainee)))), s)))"

subsection \<open>Trainee service\<close>

text \<open>
  \<open>PaginationRequest page page_size\<close>; an absent number arrives as \<open>0\<close>, an absent
  \<^verbatim>\<open>pagination\<close> as \<^verbatim>\<open>null\<close> (\<open>None\<close>). \<open>PaginationResponse page page_size total\<close>.
\<close>

datatype PaginationRequest = PaginationRequest int int

datatype PaginationResponse = PaginationResponse int int int

datatype ListTraineesResponse = ListTraineesResponse "jsobj option list" PaginationResponse

definition ListTrainees ::
  "env \<Rightarrow> string \<Rightarrow> PaginationRequest option \<Rightarrow> server \<Rightarrow> (err + ListTraineesResponse) \<times> server" where
  "ListTrainees e token pagination s =
     (case authenticateToken e s token of
        Inl error \<Rightarrow> (Inl (catch_code error), s)
      | Inr decoded \<Rightarrow>
          let page = (case pagination of
                        None \<Rightarrow> 1
                      | Some (PaginationRequest p ps) \<Rightarrow> if p = 0 then 1 else p);
              pageSize = (case pagination of
                            None \<Rightarrow> 20
                          | Some (PaginationRequest p ps) \<Rightarrow> if ps = 0 then 20 else ps);
              skip = (page - 1) * pageSize
          in (case findMany_skip_take skip pageSize (trainees s) of
               Inl error \<Rightarrow> (Inl (catch_code error), s)
             | Inr rows \<Rightarrow>
                 (Inr (ListTraineesResponse
                         (map (\<lambda>t. formatTrainee
                                     (Some (select_fields trainee_select (trainee_object t)))) rows)
                         (PaginationResponse page pageSize (int (length (trainees s))))), s)))"

definition CreateTrainee ::
  "env \<Rightarrow> string \<Rightarrow> string \<Rightarrow> string \<Rightarrow> string \<Rightarrow> server \<Rightarrow> (err + jsobj option) \<times> server" where
  "CreateTrainee e name email password timezone s =
     (if name = '''' \<or> email = '''' \<or> password = ''''
      then (Inl (GrpcError INVALID_ARGUMENT ''Name, email, and password are required''), s)
      else case find (\<lambda>t. t_email t = email) (trainees s) of
             Some existingTrainee \<Rightarrow>
               (Inl (GrpcError ALREADY_EXISTS ''Email is already in use''), s)
           | None \<Rightarrow>
               (case trainee_create e name email password timezone (trainees s) of
                  Inl error \<Rightarrow> (Inl internal, s)
                | Inr (newTrainee, rows) \<Rightarrow>
                    (Inr (formatTrainee
                            (Some (select_fields trainee_select (trainee_object newTrainee)))),
                     s\<lparr>trainees := rows\<rparr>)))"

definition GetTrainee ::
  "env \<Rightarrow> string \<Rightarrow> string \<Rightarrow> server \<Rightarrow> (err + jsobj option) \<times> server" where
  "GetTrainee e token trainee_id s =
     (case authenticateToken e s token of
        Inl error \<Rightarrow> (Inl (catch_code error), s)
      | Inr decoded \<Rightarrow>
          (case find (\<lambda>t. t_id t = trainee_id) (trainees s) of
             None \<Rightarrow> (Inl (GrpcError NOT_FOUND ''Trainee not found''), s)
           | Some trainee \<Rightarrow>
               (Inr (formatTrainee
                       (Some (select_fields trainee_select (trainee_object trainee)))), s)))"

text \<open>
  The optional request fields of the Update handlers are \<open>None\<close> when absent
  (\<^verbatim>\<open>undefined\<close>); \<^verbatim>\<open>if (name !== undefined && name !== '') updateData.name = name\<close>.
\<close>

definition UpdateTrainee ::
  "env \<Rightarrow> string \<Rightarrow> string \<Rightarrow> string option \<Rightarrow> string option \<Rightarrow> string option \<Rightarrow> string option \<Rightarrow>
   server \<Rightarrow> (err + jsobj option) \<times> server" where
  "UpdateTrainee e token trainee_id name email password timezone s =
     (case authenticateToken e s token of
        Inl error \<Rightarrow> (Inl (catch_P2025_internal ''Trainee not found'' error), s)
      | Inr decoded \<Rightarrow>
          let updateData =
                \<lparr>td_name = (if name \<noteq> None \<and> name \<noteq> Some '''' then name else None),
                 td_email = (if email \<noteq> None \<and> email \<noteq> Some '''' then email else None),
                 td_password =
                   (if password \<noteq> None \<and> password \<noteq> Some '''' then password else None),
                 td_timezone =
                   (if timezone \<noteq> None \<and> timezone \<noteq> Some '''' then timezone else None)\<rparr>
          in (case trainee_update e trainee_id updateData (trainees s) of
               Inl error \<Rightarrow> (Inl (catch_P2025_internal ''Trainee not found'' error), s)
             | Inr (updatedTrainee, rows) \<Rightarrow>
                 (Inr (formatTrainee
                         (Some (select_fields trainee_select (trainee_object updatedTrainee)))),
                  s\<lparr>trainees := rows\<rparr>)))"

definition DeleteTrainee ::
  "env \<Rightarrow> string \<Rightarrow> string \<Rightarrow> server \<Rightarrow> (err + bool) \<times> server" where
  "DeleteTrainee e token trainee_id s =
     (case authenticateToken e s token of
        Inl error \<Rightarrow> (Inl (catch_P2025_code ''Trainee not found'' error), s)
      | Inr decoded \<Rightarrow>
          (case trainee_delete trainee_id (trainees s) of
             Inl error \<Rightarrow> (Inl (catch_P2025_code ''Trainee not found'' error), s)
           | Inr rows \<Rightarrow> (Inr True, s\<lparr>trainees := rows\<rparr>)))"

subsection \<open>Workout service\<close>

definition ListWorkouts :: "env \<Rightarrow> string \<Rightarrow> server \<Rightarrow> (err + workout list) \<times> server" where
  "ListWorkouts e token s =
     (case authenticateToken e s token of
        Inl error \<Rightarrow> (Inl (catch_code error), s)
      | Inr decoded \<Rightarrow> (Inr (orderBy_desc w_createdAt (workouts s)), s))"

text \<open>\<^verbatim>\<open>!duration\<close> holds of the number \<open>0\<close>, which is also what an absent duration is.\<close>

definition CreateWorkout ::
  "env \<Rightarrow> string \<Rightarrow> string \<Rightarrow> int \<Rightarrow> string \<Rightarrow> string \<Rightarrow> server \<Rightarrow> (err + workout) \<times> server" where
  "CreateWorkout e token name duration description color s =
     (case authenticateToken e s token of
        Inl error \<Rightarrow> (Inl (catch_code error), s)
      | Inr decoded \<Rightarrow>
          if name = '''' \<or> duration = 0
          then (Inl (GrpcError INVALID_ARGUMENT ''Name and duration are required''), s)
          else (case workout_create e name duration description color (workouts s) of
                 Inl error \<Rightarrow> (Inl (catch_code error), s)
               | Inr (newWorkout, rows) \<Rightarrow> (Inr newWorkout, s\<lparr>workouts := rows\<rparr>)))"

definition GetWorkout :: "env \<Rightarrow> string \<Rightarrow> string \<Rightarrow> server \<Rightarrow> (err + workout) \<times> server" where
  "GetWorkout e token workout_id s =
     (case authenticateToken e s token of
        Inl error \<Rightarrow> (Inl (catch_code error), s)
      | Inr decoded \<Rightarrow>
          (case find (\<lambda>w. w_id w = workout_id) (workouts s) of
             None \<Rightarrow> (Inl (GrpcError NOT_FOUND ''Workout not found''), s)
           | Some workout \<Rightarrow> (Inr workout, s)))"

definition UpdateWorkout ::
  "env \<Rightarrow> string \<Rightarrow> string \<Rightarrow> string option \<Rightarrow> int option \<Rightarrow> string option \<Rightarrow> string option \<Rightarrow>
   server \<Rightarrow> (err + workout) \<times> server" where
  "UpdateWorkout e token workout_id name duration description color s =
     (case authenticateToken e s token of
        Inl error \<Rightarrow> (Inl (catch_P2025_internal ''Workout not found'' error), s)
      | Inr decoded \<Rightarrow>
          let updateData =
                \<lparr>wd_name = (if name \<noteq> None \<and> name \<noteq> Some '''' then name else None),
                 wd_duration = (if duration \<noteq> None then duration else None),
                 wd_description =
                   (if description \<noteq> None \<and> description \<noteq> Some '''' then description else None),
                 wd_color = (if color \<noteq> None \<and> color \<noteq> Some '''' then color else None)\<rparr>
          in (case workout_update e workout_id updateData (workouts s) of
               Inl error \<Rightarrow> (Inl (catch_P2025_internal ''Workout not found'' error), s)
             | Inr (updatedWorkout, rows) \<Rightarrow> (Inr updatedWorkout, s\<lparr>workouts := rows\<rparr>)))"

definition DeleteWorkout :: "env \<Rightarrow> string \<Rightarrow> string \<Rightarrow> server \<Rightarrow> (err + bool) \<times> server" where
  "DeleteWorkout e token workout_id s =
     (case authenticateToken e s token of
        Inl error \<Rightarrow> (Inl (catch_P2025_code ''Workout not found'' error), s)
      | Inr decoded \<Rightarrow>
          (case workout_delete workout_id (workouts s) of
             Inl error \<Rightarrow> (Inl (catch_P2025_code ''Workout not found'' error), s)
           | Inr rows \<Rightarrow> (Inr True, s\<lparr>workouts := rows\<rparr>)))"

subsection \<open>Routine service\<close>

record routine_msg =
  rm_id :: string
  rm_user_id :: string
  rm_availability :: "timeslot list"
  rm_trainee :: "jsobj option"
  rm_created_at :: "timestamp option"
  rm_updated_at :: "timestamp option"

text \<open>
  \<^verbatim>\<open>formatRoutine(routine)\<close>: the argument is a row together with the \<^verbatim>\<open>trainee\<close> that the
  query included.
\<close>

definition formatRoutine :: "routine \<times> jsobj option \<Rightarrow> routine_msg" where
  "formatRoutine routine =
     \<lparr>rm_id = r_id (fst routine),
      rm_user_id = r_userId (fst routine),
      rm_availability = JSON_parse (r_availability (fst routine)),
      rm_trainee = (case snd routine of None \<Rightarrow> None | Some t \<Rightarrow> formatTrainee (Some t)),
      rm_created_at = convertTimestamp (Some (r_createdAt (fst routine))),
      rm_updated_at = convertTimestamp (Some (r_updatedAt (fst routine)))\<rparr>"

text \<open>\<^verbatim>\<open>trainee_id ? { userId: trainee_id } : {}\<close>: the filter is optional.\<close>

definition ListRoutines ::
  "env \<Rightarrow> string \<Rightarrow> string option \<Rightarrow> server \<Rightarrow> (err + routine_msg list) \<times> server" where
  "ListRoutines e token trainee_id s =
     (case authenticateToken e s token of
        Inl error \<Rightarrow> (Inl (catch_code error), s)
      | Inr decoded \<Rightarrow>
          let found = (if trainee_id \<noteq> None \<and> trainee_id \<noteq> Some ''''
                       then filter (\<lambda>r. Some (r_userId r) = trainee_id) (routines s)
                       else routines s)
          in (Inr (map (\<lambda>r. formatRoutine (r, include_trainee (trainees s) (r_userId r)))
                     (orderBy_desc r_createdAt found)), s))"

definition CreateRoutine ::
  "env \<Rightarrow> string \<Rightarrow> string \<Rightarrow> timeslot list \<Rightarrow> server \<Rightarrow> (err + routine_msg) \<times> server" where
  "CreateRoutine e token user_id availability s =
     (case authenticateToken e s token of
        Inl error \<Rightarrow> (Inl (catch_code error), s)
      | Inr decoded \<Rightarrow>
          if user_id = '''' \<or> availability = []
          then (Inl (GrpcError INVALID_ARGUMENT ''user_id and availability are required''), s)
          else (case find (\<lambda>t. t_id t = user_id) (trainees s) of
                 None \<Rightarrow> (Inl (GrpcError NOT_FOUND ''Trainee not found''), s)
               | Some trainee \<Rightarrow>
                   (case routine_create e user_id (JSON_stringify availability) (routines s) of
                      Inl error \<Rightarrow> (Inl (catch_code error), s)
                    | Inr (newRoutine, rows) \<Rightarrow>
                        (Inr (formatRoutine
                                (newRoutine, include_trainee (trainees s) (r_userId newRoutine))),
                         s\<lparr>routines := rows\<rparr>))))"

definition GetTraineeRoutine ::
  "env \<Rightarrow> string \<Rightarrow> string \<Rightarrow> server \<Rightarrow> (err + routine_msg) \<times> server" where
  "GetTraineeRoutine e token trainee_id s =
     (case authenticateToken e s token of
        Inl error \<Rightarrow> (Inl (catch_code error), s)
      | Inr decoded \<Rightarrow>
          (case find (\<lambda>r. r_userId r = trainee_id) (routines s) of
             None \<Rightarrow> (Inl (GrpcError NOT_FOUND ''Routine not found''), s)
           | Some routine \<Rightarrow>
               (Inr (formatRoutine (routine, include_trainee (trainees s) (r_userId routine))),
                s)))"

text \<open>
  \<^verbatim>\<open>UpdateTraineeRoutine\<close>: its \<^verbatim>\<open>catch\<close> answers every exception with \<^verbatim>\<open>INTERNAL\<close>.
  \<^verbatim>\<open>formatRoutine\<close> of \<^verbatim>\<open>null\<close> would throw, should \<^verbatim>\<open>findFirst\<close> find nothing after the
  update.
\<close>

definition UpdateTraineeRoutine ::
  "env \<Rightarrow> string \<Rightarrow> string \<Rightarrow> timeslot list \<Rightarrow> server \<Rightarrow> (err + routine_msg) \<times> server" where
  "UpdateTraineeRoutine e token trainee_id availability s =
     (case authenticateToken e s token of
        Inl error \<Rightarrow> (Inl internal, s)
      | Inr decoded \<Rightarrow>
          if availability = []
          then (Inl (GrpcError INVALID_ARGUMENT ''availability is required''), s)
          else (case routine_updateMany e trainee_id (JSON_stringify availability) (routines s) of
                 (count, rows) \<Rightarrow>
                   if count = 0 then (Inl (GrpcError NOT_FOUND ''Routine not found''), s)
                   else (case find (\<lambda>r. r_userId r = trainee_id) rows of
                          None \<Rightarrow> (Inl internal, s\<lparr>routines := rows\<rparr>)
                        | Some routine \<Rightarrow>
                            (Inr (formatRoutine
                                    (routine, include_trainee (trainees s) (r_userId routine))),
                             s\<lparr>routines := rows\<rparr>))))"

definition DeleteTraineeRoutine ::
  "env \<Rightarrow> string \<Rightarrow> string \<Rightarrow> server \<Rightarrow> (err + bool) \<times> server" where
  "DeleteTraineeRoutine e token trainee_id s =
     (case authenticateToken e s token of
        Inl error \<Rightarrow> (Inl (catch_code error), s)
      | Inr decoded \<Rightarrow>
          (case routine_deleteMany trainee_id (routines s) of
             (count, rows) \<Rightarrow>
               if count = 0 then (Inl (GrpcError NOT_FOUND ''Routine not found''), s)
               else (Inr True, s\<lparr>routines := rows\<rparr>)))"

subsection \<open>Registration service\<close>

record registration_msg =
  gm_id :: string
  gm_event_id :: string
  gm_user_id :: string
  gm_invitee_email :: string
  gm_start_time :: "timestamp option"
  gm_end_time :: "timestamp option"
  gm_status :: string
  gm_trainee :: "jsobj option"
  gm_created_at :: "timestamp option"
  gm_updated_at :: "timestamp option"

text \<open>\<^verbatim>\<open>formatRegistration(registration)\<close>, the row with its included \<^verbatim>\<open>trainee\<close>.\<close>

definition formatRegistration :: "registration \<times> jsobj option \<Rightarrow> registration_msg" where
  "formatRegistration registration =
     \<lparr>gm_id = g_id (fst registration),
      gm_event_id = g_eventId (fst registration),
      gm_user_id = g_userId (fst registration),
      gm_invitee_email = g_inviteeEmail (fst registration),
      gm_start_time = convertTimestamp (Some (g_startTime (fst registration))),
      gm_end_time = convertTimestamp (g_endTime (fst registration)),
      gm_status = g_status (fst registration),
      gm_trainee = (case snd registration of None \<Rightarrow> None | Some t \<Rightarrow> formatTrainee (Some t)),
      gm_created_at = convertTimestamp (Some (g_createdAt (fst registration))),
      gm_updated_at = convertTimestamp (Some (g_updatedAt (fst registration)))\<rparr>"

definition ListRegistrations ::
  "env \<Rightarrow> string \<Rightarrow> server \<Rightarrow> (err + registration_msg list) \<times> server" where
  "ListRegistrations e token s =
     (case authenticateToken e s token of
        Inl error \<Rightarrow> (Inl (catch_code error), s)
      | Inr decoded \<Rightarrow>
          (Inr (map (\<lambda>g. formatRegistration (g, include_trainee (trainees s) (g_userId g)))
                  (orderBy_desc g_createdAt (registrations s))), s))"

text \<open>
  The two times of \<^verbatim>\<open>CreateRegistration\<close> are message fields: \<open>None\<close> is \<^verbatim>\<open>null\<close>, an
  absent field. \<^verbatim>\<open>status || 'scheduled'\<close>.
\<close>

definition CreateRegistration ::
  "env \<Rightarrow> string \<Rightarrow> string \<Rightarrow> string \<Rightarrow> string \<Rightarrow> timestamp option \<Rightarrow> timestamp option \<Rightarrow> string \<Rightarrow>
   server \<Rightarrow> (err + registration_msg) \<times> server" where
  "CreateRegistration e token event_id user_id invitee_email start_time end_time status s =
     (case authenticateToken e s token of
        Inl error \<Rightarrow> (Inl (catch_code error), s)
      | Inr decoded \<Rightarrow>
          if event_id = '''' \<or> user_id = '''' \<or> invitee_email = '''' \<or> start_time = None
          then (Inl (GrpcError INVALID_ARGUMENT
                       ''event_id, user_id, invitee_email, and start_time are required''), s)
          else (case find (\<lambda>t. t_id t = user_id) (trainees s) of
                 None \<Rightarrow> (Inl (GrpcError NOT_FOUND ''Trainee not found''), s)
               | Some trainee \<Rightarrow>
                   (case registration_create e event_id user_id invitee_email
                           (convertFromTimestamp start_time)
                           (if end_time \<noteq> None then convertFromTimestamp end_time else None)
                           (if status \<noteq> '''' then status else ''scheduled'')
                           (registrations s) of
                      Inl error \<Rightarrow> (Inl (catch_code error), s)
                    | Inr (newRegistration, rows) \<Rightarrow>
                        (Inr (formatRegistration
                                (newRegistration,
                                 include_trainee (trainees s) (g_userId newRegistration))),
                         s\<lparr>registrations := rows\<rparr>))))"

definition GetRegistration ::
  "env \<Rightarrow> string \<Rightarrow> string \<Rightarrow> server \<Rightarrow> (err + registration_msg) \<times> server" where
  "GetRegistration e token registration_id s =
     (case authenticateToken e s token of
        Inl error \<Rightarrow> (Inl (catch_code error), s)
      | Inr decoded \<Rightarrow>
          (case find (\<lambda>g. g_id g = registration_id) (registrations s) of
             None \<Rightarrow> (Inl (GrpcError NOT_FOUND ''Registration not found''), s)
           | Some registration \<Rightarrow>
               (Inr (formatRegistration
                       (registration, include_trainee (trainees s) (g_userId registration))),
                s)))"

text \<open>
  The two times of \<^verbatim>\<open>UpdateRegistration\<close> are optional fields: \<open>None\<close> is \<^verbatim>\<open>undefined\<close>,
  and a time that is there is an object, so \<^verbatim>\<open>end_time ? ... : null\<close> converts it.
\<close>

definition UpdateRegistration ::
  "env \<Rightarrow> string \<Rightarrow> string \<Rightarrow> string option \<Rightarrow> string option \<Rightarrow> string option \<Rightarrow>
   timestamp option \<Rightarrow> timestamp option \<Rightarrow> string option \<Rightarrow>
   server \<Rightarrow> (err + registration_msg) \<times> server" where
  "UpdateRegistration e token registration_id event_id user_id invitee_email start_time end_time
     status s =
     (case authenticateToken e s token of
        Inl error \<Rightarrow> (Inl (catch_P2025_internal ''Registration not found'' error), s)
      | Inr decoded \<Rightarrow>
          let updateData =
                \<lparr>gd_eventId =
                   (if event_id \<noteq> None \<and> event_id \<noteq> Some '''' then event_id else None),
                 gd_userId = (if user_id \<noteq> None \<and> user_id \<noteq> Some '''' then user_id else None),
                 gd_inviteeEmail =
                   (if invitee_email \<noteq> None \<and> invitee_email \<noteq> Some ''''
                    then invitee_email else None),
                 gd_startTime =
                   (if start_time \<noteq> None then Some (convertFromTimestamp start_time) else None),
                 gd_endTime =
                   (if end_time \<noteq> None then Some (convertFromTimestamp end_time) else None),
                 gd_status = (if status \<noteq> None \<and> status \<noteq> Some '''' then status else None)\<rparr>
          in (case registration_update e registration_id updateData (registrations s) of
               Inl error \<Rightarrow> (Inl (catch_P2025_internal ''Registration not found'' error), s)
             | Inr (updatedRegistration, rows) \<Rightarrow>
                 (Inr (formatRegistration
                         (updatedRegistration,
                          include_trainee (trainees s) (g_userId updatedRegistration))),
                  s\<lparr>registrations := rows\<rparr>)))"

definition DeleteRegistration ::
  "env \<Rightarrow> string \<Rightarrow> string \<Rightarrow> server \<Rightarrow> (err + bool) \<times> server" where
  "DeleteRegistration e token registration_id s =
     (case authenticateToken e s token of
        Inl error \<Rightarrow> (Inl (catch_P2025_code ''Registration not found'' error), s)
      | Inr decoded \<Rightarrow>
          (case registration_delete registration_id (registrations s) of
             Inl error \<Rightarrow> (Inl (catch_P2025_code ''Registration not found'' error), s)
           | Inr rows \<Rightarrow> (Inr True, s\<lparr>registrations := rows\<rparr>)))"

subsection \<open>Predicates used to state the properties\<close>

text \<open>A trainee in a response is \<^verbatim>\<open>null\<close> or an object without a \<^verbatim>\<open>password\<close> field.\<close>

definition no_password :: "jsobj option \<Rightarrow> bool" where
  "no_password trainee = (case trainee of None \<Rightarrow> True | Some obj \<Rightarrow> \<not> has_field obj ''password'')"

text \<open>
  What the trainee handlers answer for a stored trainee: the selected fields, through
  \<^verbatim>\<open>formatTrainee\<close>.
\<close>

definition public_trainee :: "trainee \<Rightarrow> jsobj option" where
  "public_trainee t = formatTrainee (Some (select_fields trainee_select (trainee_object t)))"

text \<open>The callback received an error with status \<^verbatim>\<open>INVALID_ARGUMENT\<close>.\<close>

definition is_invalid_argument :: "err + 'a \<Rightarrow> bool" where
  "is_invalid_argument r =
     (case r of Inl (GrpcError INVALID_ARGUMENT m) \<Rightarrow> True | _ \<Rightarrow> False)"

subsection \<open>A small server, for concrete runs\<close>

definition alice :: trainee where
  "alice = \<lparr>t_id = ''u1'', t_name = ''A'', t_email = ''a@x.com'', t_password = ''pw'',
             t_timezone = ''UTC'', t_createdAt = 1000, t_updatedAt = 1000\<rparr>"

definition bob :: trainee where
  "bob = \<lparr>t_id = ''u2'', t_name = ''B'', t_email = ''b@x.com'', t_password = ''pw2'',
           t_timezone = ''UTC'', t_createdAt = 2000, t_updatedAt = 2000\<rparr>"

definition hiit :: workout where
  "hiit = \<lparr>w_id = ''w1'', w_name = ''HIIT'', w_duration = 45, w_description = ''intervals'',
            w_color = ''red'', w_createdAt = 3000, w_updatedAt = 3000\<rparr>"

definition monday :: timeslot where
  "monday = \<lparr>ts_day = ''monday'', ts_start_time = ''08:00'', ts_end_time = ''10:00''\<rparr>"

definition friday :: timeslot where
  "friday = \<lparr>ts_day = ''friday'', ts_start_time = ''16:00'', ts_end_time = ''18:00''\<rparr>"

definition sunday :: timeslot where
  "sunday = \<lparr>ts_day = ''sunday'', ts_start_time = ''09:00'', ts_end_time = ''11:00''\<rparr>"

definition routine1 :: routine where
  "routine1 = \<lparr>r_id = ''r1'', r_userId = ''u1'', r_availability = JSON [monday],
                r_createdAt = 3100, r_updatedAt = 3100\<rparr>"

definition routine2 :: routine where
  "routine2 = \<lparr>r_id = ''r2'', r_userId = ''u1'', r_availability = JSON [friday],
                r_createdAt = 3200, r_updatedAt = 3200\<rparr>"

definition routine3 :: routine where
  "routine3 = \<lparr>r_id = ''r3'', r_userId = ''u2'', r_availability = JSON [friday],
                r_createdAt = 3300, r_updatedAt = 3300\<rparr>"

definition booking :: registration where
  "booking = \<lparr>g_id = ''g1'', g_eventId = ''event-123'', g_userId = ''u1'',
               g_inviteeEmail = ''a@x.com'', g_startTime = 7200000, g_endTime = Some 10800000,
               g_status = ''scheduled'', g_createdAt = 3400, g_updatedAt = 3400\<rparr>"

text \<open>
  The token \<^verbatim>\<open>tok\<close> is the one token that verifies, and it carries the identity of the
  first trainee.
\<close>

definition env0 :: env where
  "env0 = \<lparr>now = 5000, fresh_id = ''n1'',
            jwt_verify = (\<lambda>token. if token = ''tok''
                                    then Some \<lparr>u_traineeId = ''u1'', u_email = ''a@x.com''\<rparr>
                                    else None),
            jwt_sign = (\<lambda>payload. Some ''tok'')\<rparr>"

definition server0 :: server where
  "server0 = \<lparr>trainees = [alice, bob], workouts = [hiit],
               routines = [routine1, routine2, routine3], registrations = [booking],
               revokedTokens = {}\<rparr>"

text \<open>The same server after \<^verbatim>\<open>tok\<close> has logged out.\<close>

definition server1 :: server where
  "server1 = snd (DeleteSession env0 ''tok'' server0)"

text \<open>
  The first trainee as the trainee handlers answer it, and as the routine and registration
  handlers include it.
\<close>

definition alice_public :: jsobj where
  "alice_public =
     [(''id'', JString ''u1''), (''name'', JString ''A''), (''email'', JString ''a@x.com''),
      (''timezone'', JString ''UTC''), (''createdAt'', JDate 1000), (''updatedAt'', JDate 1000),
      (''created_at'', JDate 1000), (''updated_at'', JDate 1000)]"

definition alice_included :: jsobj where
  "alice_included =
     [(''id'', JString ''u1''), (''name'', JString ''A''), (''email'', JString ''a@x.com''),
      (''createdAt'', JDate 1000), (''updatedAt'', JDate 1000),
      (''created_at'', JDate 1000), (''updated_at'', JDate 1000)]"

definition bob_included :: jsobj where
  "bob_included =
     [(''id'', JString ''u2''), (''name'', JString ''B''), (''email'', JString ''b@x.com''),
      (''createdAt'', JDate 2000), (''updatedAt'', JDate 2000),
      (''created_at'', JDate 2000), (''updated_at'', JDate 2000)]"

text \<open>
  Twelve stored trainees, with identifiers \<^verbatim>\<open>t1\<close> to \<^verbatim>\<open>t12\<close> written in unary.
\<close>

definition member :: "nat \<Rightarrow> trainee" where
  "member n = \<lparr>t_id = CHR ''t'' # replicate n CHR ''i'', t_name = ''M'',
                t_email = replicate n CHR ''m'' @ ''@x.com'', t_password = ''secret'',
                t_timezone = ''UTC'', t_createdAt = int n, t_updatedAt = int n\<rparr>"

definition server12 :: server where
  "server12 = \<lparr>trainees = [member 1, member 2, member 3, member 4, member 5, member 6,
                             member 7, member 8, member 9, member 10, member 11, member 12],
                workouts = [], routines = [], registrations = [], revokedTokens = {}\<rparr>"

section \<open>Properties\<close>

subsection \<open>The token authenticator\<close>

lemma authenticateToken_revoked:
  "token \<noteq> '''' \<Longrightarrow> token \<in> revokedTokens s \<Longrightarrow>
   authenticateToken e s token = Inl (GrpcError UNAUTHENTICATED ''Token is revoked'')"
  by (simp add: authenticateToken_def)

lemma authenticateToken_Inr:
  "authenticateToken e s token = Inr decoded \<longleftrightarrow>
   token \<noteq> '''' \<and> token \<notin> revokedTokens s \<and> jwt_verify e token = Some decoded"
  by (auto simp: authenticateToken_def split: option.splits)

text \<open>
  Logging out is the one operation that changes the revocation set, and it adds a token
  that has just passed \<^verbatim>\<open>authenticateToken\<close>: the empty string never enters the set.
\<close>

lemma DeleteSession_revokedTokens:
  "revokedTokens (snd (DeleteSession e token s)) =
     (if authenticateToken e s token = Inl (GrpcError UNAUTHENTICATED ''Authorization token missing'')
         \<or> authenticateToken e s token = Inl (GrpcError UNAUTHENTICATED ''Token is revoked'')
         \<or> authenticateToken e s token = Inl (GrpcError UNAUTHENTICATED ''Invalid token'')
      then revokedTokens s else insert token (revokedTokens s))"
  by (auto simp: DeleteSession_def authenticateToken_def split: option.splits)

lemma DeleteSession_keeps_empty_out:
  "'''' \<notin> revokedTokens s \<Longrightarrow> '''' \<notin> revokedTokens (snd (DeleteSession e token s))"
  by (auto simp: DeleteSession_def authenticateToken_def split: option.splits)

text \<open>
  Claim C4. Given any token string, \<^verbatim>\<open>authenticateToken\<close> either returns the claims that
  the token decodes to, or fails in exactly one of three ways: the token is missing, it is
  revoked, or it is invalid (whatever makes the verification throw). Membership in the
  revocation set is tested before the verification: a token of the revocation set is
  reported as revoked whether or not it verifies. (The empty string is never in the
  revocation set of a running server, see \<open>DeleteSession_keeps_empty_out\<close>.)
\<close>

theorem authenticateToken_contract:
  "((token = '''' \<and>
       authenticateToken e s token = Inl (GrpcError UNAUTHENTICATED ''Authorization token missing''))
    \<or> (token \<noteq> '''' \<and> token \<in> revokedTokens s \<and>
       authenticateToken e s token = Inl (GrpcError UNAUTHENTICATED ''Token is revoked''))
    \<or> (token \<noteq> '''' \<and> token \<notin> revokedTokens s \<and> jwt_verify e token = None \<and>
       authenticateToken e s token = Inl (GrpcError UNAUTHENTICATED ''Invalid token''))
    \<or> (\<exists>decoded. token \<noteq> '''' \<and> token \<notin> revokedTokens s \<and> jwt_verify e token = Some decoded \<and>
       authenticateToken e s token = Inr decoded))
   \<and> ('''' \<notin> revokedTokens s \<and> token \<in> revokedTokens s \<longrightarrow>
       authenticateToken e s token = Inl (GrpcError UNAUTHENTICATED ''Token is revoked''))"
proof (intro conjI impI)
  show "(token = '''' \<and>
       authenticateToken e s token = Inl (GrpcError UNAUTHENTICATED ''Authorization token missing''))
    \<or> (token \<noteq> '''' \<and> token \<in> revokedTokens s \<and>
       authenticateToken e s token = Inl (GrpcError UNAUTHENTICATED ''Token is revoked''))
    \<or> (token \<noteq> '''' \<and> token \<notin> revokedTokens s \<and> jwt_verify e token = None \<and>
       authenticateToken e s token = Inl (GrpcError UNAUTHENTICATED ''Invalid token''))
    \<or> (\<exists>decoded. token \<noteq> '''' \<and> token \<notin> revokedTokens s \<and> jwt_verify e token = Some decoded \<and>
       authenticateToken e s token = Inr decoded)"
    by (cases "jwt_verify e token") (simp_all add: authenticateToken_def)
next
  assume "'''' \<notin> revokedTokens s \<and> token \<in> revokedTokens s"
  then have "token \<noteq> ''''" and "token \<in> revokedTokens s"
    by auto
  then show "authenticateToken e s token = Inl (GrpcError UNAUTHENTICATED ''Token is revoked'')"
    by (rule authenticateToken_revoked)
qed

text \<open>
  At the server where \<^verbatim>\<open>tok\<close> has logged out, \<^verbatim>\<open>tok\<close> still verifies and is reported as
  revoked.
\<close>

theorem authenticateToken_contract_witness:
  "'''' \<notin> revokedTokens server1 \<and> ''tok'' \<in> revokedTokens server1
   \<and> jwt_verify env0 ''tok'' = Some \<lparr>u_traineeId = ''u1'', u_email = ''a@x.com''\<rparr>
   \<and> authenticateToken env0 server1 ''tok'' = Inl (GrpcError UNAUTHENTICATED ''Token is revoked'')"
proof -
  have r: "revokedTokens server1 = {''tok''}"
    by (simp add: server1_def DeleteSession_def authenticateToken_def env0_def server0_def)
  have h: "'''' \<notin> revokedTokens server1 \<and> ''tok'' \<in> revokedTokens server1"
    by (simp add: r)
  have v: "jwt_verify env0 ''tok'' = Some \<lparr>u_traineeId = ''u1'', u_email = ''a@x.com''\<rparr>"
    by (simp add: env0_def)
  from authenticateToken_contract [of "''tok''" env0 server1] h v show ?thesis
    by blast
qed

subsection \<open>Timestamps\<close>

text \<open>
  The exponent that \<^const>\<open>ulp_exponent\<close> gives brings a number other than 0 between \<open>2^52\<close>
  and \<open>2^53\<close>, so that \<^const>\<open>Number_value\<close> keeps 53 bits of it.
\<close>

lemma floor_bitlen_bounds:
  fixes y :: real
  assumes "1 \<le> y"
  shows "2 powi (bitlen \<lfloor>y\<rfloor> - 1) \<le> y" and "y < 2 powi bitlen \<lfloor>y\<rfloor>"
proof -
  define a where "a = \<lfloor>y\<rfloor>"
  define n where "n = bitlen a"
  have a: "0 < a"
    using assms by (simp add: a_def)
  from bitlen_bounds [OF a] have b: "2 ^ nat (n - 1) \<le> a" "a < 2 ^ nat n"
    by (simp_all add: n_def)
  have n: "1 \<le> n"
    using b(2) a by (cases "n \<le> 0") (simp_all add: n_def)
  have "real_of_int (2 ^ nat (n - 1)) \<le> real_of_int a"
    using b(1) by (simp only: of_int_le_iff)
  also have "\<dots> \<le> y"
    by (simp add: a_def)
  finally have "2 ^ nat (n - 1) \<le> y"
    by simp
  then show "2 powi (bitlen \<lfloor>y\<rfloor> - 1) \<le> y"
    using n by (simp add: power_int_def a_def n_def)
  have "a + 1 \<le> 2 ^ nat n"
    using b(2) by simp
  then have "real_of_int (a + 1) \<le> real_of_int (2 ^ nat n)"
    by (simp only: of_int_le_iff)
  moreover have "y < real_of_int (a + 1)"
    by (simp add: a_def)
  ultimately have "y < 2 ^ nat n"
    by simp
  then show "y < 2 powi bitlen \<lfloor>y\<rfloor>"
    using n by (simp add: power_int_def a_def n_def)
qed

lemma ulp_exponent_range:
  assumes "x \<noteq> 0"
  shows "2 ^ 52 \<le> \<bar>x\<bar> / 2 powi ulp_exponent x"
    and "\<bar>x\<bar> / 2 powi ulp_exponent x \<le> 2 ^ 53"
proof -
  have "2 ^ 52 \<le> \<bar>x\<bar> / 2 powi ulp_exponent x
      \<and> \<bar>x\<bar> / 2 powi ulp_exponent x \<le> 2 ^ 53"
  proof (cases "1 \<le> \<bar>x\<bar>")
    case True
    define n where "n = bitlen \<lfloor>\<bar>x\<bar>\<rfloor>"
    have k: "ulp_exponent x = n - 53"
      using True by (simp add: ulp_exponent_def n_def)
    from floor_bitlen_bounds [OF True]
    have b: "2 powi (n - 1) \<le> \<bar>x\<bar>" "\<bar>x\<bar> < 2 powi n"
      by (simp_all add: n_def)
    have e: "\<bar>x\<bar> / 2 powi (n - 53) = \<bar>x\<bar> * 2 powi (53 - n)"
      by (simp add: power_int_diff)
    have "2 powi (n - 1) * 2 powi (53 - n) \<le> \<bar>x\<bar> * 2 powi (53 - n)"
      using b(1) by (intro mult_right_mono) simp_all
    moreover have "(2::real) powi (n - 1) * 2 powi (53 - n) = 2 ^ 52"
      by (simp flip: power_int_add)
    moreover have "\<bar>x\<bar> * 2 powi (53 - n) \<le> 2 powi n * 2 powi (53 - n)"
      using b(2) by (intro mult_right_mono) simp_all
    moreover have "(2::real) powi n * 2 powi (53 - n) = 2 ^ 53"
      by (simp flip: power_int_add)
    ultimately show ?thesis
      unfolding k e by simp
  next
    case False
    define y where "y = 1 / \<bar>x\<bar>"
    define n where "n = bitlen \<lfloor>y\<rfloor>"
    have y: "1 \<le> y" "0 < y" and x: "\<bar>x\<bar> = 1 / y"
      using False assms by (simp_all add: y_def)
    have k: "ulp_exponent x = - n - 52"
      using False by (simp add: ulp_exponent_def n_def y_def)
    from floor_bitlen_bounds [OF y(1)]
    have b: "2 powi (n - 1) \<le> y" "y < 2 powi n"
      by (simp_all add: n_def)
    have e: "\<bar>x\<bar> / 2 powi (- n - 52) = 2 powi (n + 52) / y"
      unfolding x by (simp add: power_int_diff power_int_minus power_int_add field_simps)
    have "2 ^ 52 * y \<le> 2 ^ 52 * 2 powi n"
      using b(2) by simp
    also have "\<dots> = 2 powi (n + 52)"
      by (simp add: power_int_add)
    finally have 1: "2 ^ 52 \<le> 2 powi (n + 52) / y"
      using y(2) by (simp add: pos_le_divide_eq)
    have "(2::real) powi (n + 52) = 2 ^ 53 * 2 powi (n - 1)"
      by (simp add: power_int_add power_int_diff)
    also have "\<dots> \<le> 2 ^ 53 * y"
      using b(1) by simp
    finally have 2: "2 powi (n + 52) / y \<le> 2 ^ 53"
      using y(2) by (simp add: pos_divide_le_eq)
    show ?thesis
      unfolding k e using 1 2 by simp
  qed
  then show "2 ^ 52 \<le> \<bar>x\<bar> / 2 powi ulp_exponent x"
    and "\<bar>x\<bar> / 2 powi ulp_exponent x \<le> 2 ^ 53"
    by simp_all
qed

text \<open>An integer below \<open>2^53\<close> is a double.\<close>

lemma round_half_even_of_int:
  "round_half_even (of_int j) = j"
  by (simp add: round_half_even_def)

lemma Number_value_of_int:
  assumes "\<bar>i\<bar> < 9007199254740992"
  shows "Number_value (of_int i) = of_int i"
proof (cases "i = 0")
  case True
  then show ?thesis
    by (simp add: Number_value_def)
next
  case False
  define a where "a = \<bar>i\<bar>"
  define n where "n = bitlen a"
  have a: "0 < a" "a < 2 ^ 53"
    using False assms by (simp_all add: a_def)
  from bitlen_bounds [OF a(1)] have b: "2 ^ nat (n - 1) \<le> a" "a < 2 ^ nat n"
    by (simp_all add: n_def)
  have "(2::int) ^ nat (n - 1) < 2 ^ 53"
    using b(1) a(2) by simp
  then have "nat (n - 1) < 53"
    by (rule power_less_imp_less_exp [rotated]) simp
  then have n53: "n \<le> 53"
    by simp
  define d where "d = nat (53 - n)"
  have "\<bar>real_of_int i\<bar> = of_int a"
    by (simp add: a_def)
  moreover have "1 \<le> real_of_int a"
    using a(1) by simp
  ultimately have "ulp_exponent (of_int i) = n - 53"
    by (simp add: ulp_exponent_def n_def)
  then have k: "ulp_exponent (of_int i) = - int d"
    using n53 by (simp add: d_def)
  have p: "(2::real) powi (- int d) = 1 / 2 ^ d"
    by (simp add: power_int_minus divide_inverse)
  have m: "\<bar>real_of_int i\<bar> / 2 powi (- int d) = of_int (a * 2 ^ d)"
    unfolding p by (simp add: a_def)
  have r: "round_half_even (\<bar>real_of_int i\<bar> / 2 powi ulp_exponent (of_int i)) = a * 2 ^ d"
    unfolding k m by (rule round_half_even_of_int)
  have "Number_value (of_int i) = sgn (real_of_int i) * of_int (a * 2 ^ d) * (1 / 2 ^ d)"
    using False unfolding Number_value_def r unfolding k p by simp
  also have "\<dots> = sgn (real_of_int i) * of_int a"
    by simp
  also have "\<dots> = of_int i"
    by (simp add: a_def sgn_if)
  finally show ?thesis .
qed

lemma Number_value_Ints:
  assumes "x \<in> \<int>" and "\<bar>x\<bar> < 9007199254740992"
  shows "Number_value x = x"
proof -
  from assms(1) obtain i where x: "x = of_int i"
    by (auto elim: Ints_cases)
  have "\<bar>i\<bar> < 9007199254740992"
    using assms(2) unfolding x by linarith
  then show ?thesis
    unfolding x by (rule Number_value_of_int)
qed

text \<open>
  The time value that \<^verbatim>\<open>convertFromTimestamp\<close> reads from whole milliseconds, within the
  range of a \<^verbatim>\<open>Date\<close>: no rounding takes place.
\<close>

lemma convertFromTimestamp_milliseconds:
  assumes "\<bar>s\<bar> \<le> 8640000000000" and "\<bar>ms\<bar> < 1000"
    and "\<bar>s * 1000 + ms\<bar> \<le> 8640000000000000"
  shows "convertFromTimestamp (Some \<lparr>seconds = s, nanos = ms * 1000000\<rparr>)
           = Some (Date (s * 1000 + ms))"
proof -
  have 1: "Number_value (real_of_int s) = real_of_int s"
    using assms(1) by (intro Number_value_of_int) simp
  have "Number_value (real_of_int (s * 1000)) = real_of_int (s * 1000)"
    using assms(1) by (intro Number_value_of_int) simp
  then have 2: "Number_value (real_of_int s * 1000) = real_of_int s * 1000"
    by simp
  have 3: "Number_value (real_of_int (ms * 1000000) / 1000000) = real_of_int ms"
    using assms(2) Number_value_of_int [of ms] by simp
  have "Number_value (real_of_int (s * 1000 + ms)) = real_of_int (s * 1000 + ms)"
    using assms(3) by (intro Number_value_of_int) simp
  then have 4: "Number_value (real_of_int s * 1000 + real_of_int ms)
                  = real_of_int (s * 1000 + ms)"
    by simp
  have 5: "\<bar>real_of_int (s * 1000 + ms)\<bar> \<le> 8640000000000000"
    using assms(3) by linarith
  show ?thesis
    unfolding convertFromTimestamp_def option.case timestamp.simps 1 2 3 4 new_Date_def
    using 5 by (simp del: of_int_add of_int_mult)
qed

text \<open>
  From the epoch on, and within the range of a \<^verbatim>\<open>Date\<close>, the two conversions are inverse.
\<close>

lemma timestamp_roundtrip_from_epoch:
  assumes "0 \<le> t" and "t \<le> 8640000000000000"
  shows "convertFromTimestamp (convertTimestamp (Some t)) = Some (Date t)"
proof -
  have m: "t smod 1000 = t mod 1000"
    using assms by (cases "t = 0") (simp_all add: signed_modulo_int_def sgn_if)
  have c: "convertTimestamp (Some t)
             = Some \<lparr>seconds = t div 1000, nanos = (t mod 1000) * 1000000\<rparr>"
    by (simp add: convertTimestamp_def m)
  have "t div 1000 * 1000 + t mod 1000 = t"
    by simp
  moreover have "\<bar>t div 1000\<bar> \<le> 8640000000000" and "\<bar>t mod 1000\<bar> < 1000"
    using assms by simp_all
  ultimately show ?thesis
    unfolding c using assms convertFromTimestamp_milliseconds [of "t div 1000" "t mod 1000"]
    by simp
qed

text \<open>
  Claim C3. For every millisecond-aligned timestamp the round trip through the wire form
  is exact. The code breaks this before the epoch: for \<open>t = -1\<close> (the last millisecond of
  1969) \<^verbatim>\<open>t % 1000\<close> is \<open>-1\<close>, the wire form is \<open>seconds = -1\<close>, \<open>nanos = -1000000\<close>, and
  reading it back gives \<open>-1001\<close>.
\<close>

theorem timestamp_roundtrip_before_epoch:
  "convertTimestamp (Some (- 1)) = Some \<lparr>seconds = - 1, nanos = - 1000000\<rparr>
   \<and> convertFromTimestamp (convertTimestamp (Some (- 1))) = Some (Date (- 1001))"
  by (simp add: convertFromTimestamp_def convertTimestamp_def new_Date_def signed_modulo_int_def
      Number_value_Ints)

text \<open>
  Nanoseconds that are not whole milliseconds are where the sum is rounded: one nanosecond
  before a full second, the date read is the full second; and one nanosecond after the
  last millisecond of a \<^verbatim>\<open>Date\<close>, the date read is still that millisecond.
\<close>

lemma convertFromTimestamp_rounded:
  "convertFromTimestamp (Some \<lparr>seconds = 1700000000, nanos = 999999999\<rparr>)
     = Some (Date 1700000001000)"
  "convertFromTimestamp (Some \<lparr>seconds = 8640000000000, nanos = 1\<rparr>)
     = Some (Date 8640000000000000)"
  "convertFromTimestamp (Some \<lparr>seconds = 8640000000001, nanos = 0\<rparr>) = Some InvalidDate"
  by code_simp+

text \<open>
  Such a date reaches \<^verbatim>\<open>convertTimestamp\<close> through a registration: the start time
  \<open>seconds = -1\<close>, \<open>nanos = 999000000\<close> is the time value \<open>-1\<close>, and the registration that
  \<^verbatim>\<open>CreateRegistration\<close> answers carries \<open>seconds = -1\<close>, \<open>nanos = -1000000\<close>.
\<close>

lemma registration_before_epoch:
  "convertFromTimestamp (Some \<lparr>seconds = - 1, nanos = 999000000\<rparr>) = Some (Date (- 1))
   \<and> map_sum id gm_start_time
         (fst (CreateRegistration env0 ''tok'' ''event-9'' ''u1'' ''a@x.com''
                (Some \<lparr>seconds = - 1, nanos = 999000000\<rparr>) None '''' server0))
       = Inr (Some \<lparr>seconds = - 1, nanos = - 1000000\<rparr>)"
proof -
  have a: "authenticateToken env0 server0 ''tok''
             = Inr \<lparr>u_traineeId = ''u1'', u_email = ''a@x.com''\<rparr>"
    by (simp add: authenticateToken_def env0_def server0_def)
  have c: "convertFromTimestamp (Some \<lparr>seconds = - 1, nanos = 999000000\<rparr>) = Some (Date (- 1))"
    using convertFromTimestamp_milliseconds [of "- 1" 999] by simp
  have f: "find (\<lambda>t. t_id t = ''u1'') (trainees server0) = Some alice"
    by (simp add: server0_def alice_def)
  have r: "list_ex (\<lambda>g. g_id g = fresh_id env0) (registrations server0) = False"
    by (simp add: server0_def env0_def booking_def)
  show ?thesis
    unfolding CreateRegistration_def a c f registration_create_def
    by (simp add: r Let_def formatRegistration_def convertTimestamp_def signed_modulo_int_def)
qed

subsection \<open>Sessions\<close>

text \<open>
  Claim C10. A \<^verbatim>\<open>CheckSession\<close> call whose token is present, not revoked and verifies, but
  carries a trainee identifier that no stored trainee has, fails with \<^verbatim>\<open>NOT_FOUND\<close>.
\<close>

theorem CheckSession_unknown_trainee:
  assumes "token \<noteq> ''''" and "token \<notin> revokedTokens s"
    and "jwt_verify e token = Some decoded"
    and "u_traineeId decoded \<notin> t_id ` set (trainees s)"
  shows "CheckSession e token s = (Inl (GrpcError NOT_FOUND ''Trainee not found''), s)"
proof -
  have "authenticateToken e s token = Inr decoded"
    using assms(1-3) by (simp add: authenticateToken_Inr)
  moreover have "find (\<lambda>t. t_id t = u_traineeId decoded) (trainees s) = None"
    using assms(4) by (auto simp: find_None_iff image_iff)
  ultimately show ?thesis
    by (simp add: CheckSession_def)
qed

text \<open>The first trainee is deleted with its own token, which then names nobody.\<close>

theorem CheckSession_unknown_trainee_witness:
  "''tok'' \<noteq> '''' \<and> ''tok'' \<notin> revokedTokens (snd (DeleteTrainee env0 ''tok'' ''u1'' server0))
   \<and> jwt_verify env0 ''tok'' = Some \<lparr>u_traineeId = ''u1'', u_email = ''a@x.com''\<rparr>
   \<and> trainees (snd (DeleteTrainee env0 ''tok'' ''u1'' server0)) = [bob]
   \<and> fst (CheckSession env0 ''tok'' (snd (DeleteTrainee env0 ''tok'' ''u1'' server0)))
       = Inl (GrpcError NOT_FOUND ''Trainee not found'')"
proof -
  have d: "snd (DeleteTrainee env0 ''tok'' ''u1'' server0) = server0\<lparr>trainees := [bob]\<rparr>"
    by (simp add: DeleteTrainee_def authenticateToken_def trainee_delete_def env0_def
        server0_def alice_def bob_def)
  have v: "jwt_verify env0 ''tok'' = Some \<lparr>u_traineeId = ''u1'', u_email = ''a@x.com''\<rparr>"
    by (simp add: env0_def)
  have r: "''tok'' \<notin> revokedTokens (server0\<lparr>trainees := [bob]\<rparr>)"
    by (simp add: server0_def)
  have n: "u_traineeId \<lparr>u_traineeId = ''u1'', u_email = ''a@x.com''\<rparr>
             \<notin> t_id ` set (trainees (server0\<lparr>trainees := [bob]\<rparr>))"
    by (simp add: bob_def)
  have "''tok'' \<noteq> ''''"
    by simp
  from CheckSession_unknown_trainee [OF this r v n] show ?thesis
    unfolding d by (simp add: v server0_def)
qed

subsection \<open>Revoked tokens\<close>

lemmas handler_defs =
  CheckSession_def DeleteSession_def ListTrainees_def GetTrainee_def DeleteTrainee_def
  ListWorkouts_def CreateWorkout_def GetWorkout_def DeleteWorkout_def
  ListRoutines_def CreateRoutine_def GetTraineeRoutine_def DeleteTraineeRoutine_def
  ListRegistrations_def CreateRegistration_def GetRegistration_def DeleteRegistration_def

text \<open>
  Seventeen of the handlers that take a token answer a revoked token with
  \<^verbatim>\<open>UNAUTHENTICATED\<close>: their \<^verbatim>\<open>catch\<close> hands the error of \<^verbatim>\<open>authenticateToken\<close> on.
\<close>

lemma revoked_token_rejected:
  assumes "token \<noteq> ''''" and "token \<in> revokedTokens s"
  shows "CheckSession e token s = (Inl (GrpcError UNAUTHENTICATED ''Token is revoked''), s)"
    and "DeleteSession e token s = (Inl (GrpcError UNAUTHENTICATED ''Token is revoked''), s)"
    and "ListTrainees e token pagination s = (Inl (GrpcError UNAUTHENTICATED ''Token is revoked''), s)"
    and "GetTrainee e token trainee_id s = (Inl (GrpcError UNAUTHENTICATED ''Token is revoked''), s)"
    and "DeleteTrainee e token trainee_id s = (Inl (GrpcError UNAUTHENTICATED ''Token is revoked''), s)"
    and "ListWorkouts e token s = (Inl (GrpcError UNAUTHENTICATED ''Token is revoked''), s)"
    and "CreateWorkout e token name duration description color s
           = (Inl (GrpcError UNAUTHENTICATED ''Token is revoked''), s)"
    and "GetWorkout e token workout_id s = (Inl (GrpcError UNAUTHENTICATED ''Token is revoked''), s)"
    and "DeleteWorkout e token workout_id s = (Inl (GrpcError UNAUTHENTICATED ''Token is revoked''), s)"
    and "ListRoutines e token filter_id s = (Inl (GrpcError UNAUTHENTICATED ''Token is revoked''), s)"
    and "CreateRoutine e token user_id availability s
           = (Inl (GrpcError UNAUTHENTICATED ''Token is revoked''), s)"
    and "GetTraineeRoutine e token trainee_id s
           = (Inl (GrpcError UNAUTHENTICATED ''Token is revoked''), s)"
    and "DeleteTraineeRoutine e token trainee_id s
           = (Inl (GrpcError UNAUTHENTICATED ''Token is revoked''), s)"
    and "ListRegistrations e token s = (Inl (GrpcError UNAUTHENTICATED ''Token is revoked''), s)"
    and "CreateRegistration e token event_id user_id invitee_email start end status s
           = (Inl (GrpcError UNAUTHENTICATED ''Token is revoked''), s)"
    and "GetRegistration e token registration_id s
           = (Inl (GrpcError UNAUTHENTICATED ''Token is revoked''), s)"
    and "DeleteRegistration e token registration_id s
           = (Inl (GrpcError UNAUTHENTICATED ''Token is revoked''), s)"
  using authenticateToken_revoked [OF assms, of e]
  by (simp_all add: handler_defs catch_code_def catch_P2025_code_def)

text \<open>
  The four Update handlers do not: their \<^verbatim>\<open>catch\<close> looks for the storage code
  \<^verbatim>\<open>P2025\<close> only and answers everything else, the error of \<^verbatim>\<open>authenticateToken\<close>
  included, with \<^verbatim>\<open>INTERNAL\<close>.
\<close>

lemma revoked_token_update_handlers:
  assumes "token \<noteq> ''''" and "token \<in> revokedTokens s"
  shows "UpdateTrainee e token trainee_id name email password timezone s = (Inl internal, s)"
    and "UpdateWorkout e token workout_id name duration description color s = (Inl internal, s)"
    and "UpdateTraineeRoutine e token trainee_id availability s = (Inl internal, s)"
    and "UpdateRegistration e token registration_id event_id user_id invitee_email start end
           status' s = (Inl internal, s)"
  using authenticateToken_revoked [OF assms, of e]
  by (simp_all add: UpdateTrainee_def UpdateWorkout_def UpdateTraineeRoutine_def
      UpdateRegistration_def catch_P2025_internal_def)

lemma server1_eq: "server1 = server0\<lparr>revokedTokens := {''tok''}\<rparr>"
  by (simp add: server1_def DeleteSession_def authenticateToken_def env0_def server0_def)

text \<open>
  Claim C1. A token that has logged out is rejected with \<^verbatim>\<open>UNAUTHENTICATED\<close> by every
  later authenticated call, although it still verifies. On the small server, after
  \<^verbatim>\<open>tok\<close> has logged out, \<^verbatim>\<open>GetTrainee\<close> answers \<^verbatim>\<open>UNAUTHENTICATED\<close>, but
  \<^verbatim>\<open>UpdateTrainee\<close>, \<^verbatim>\<open>UpdateWorkout\<close>, \<^verbatim>\<open>UpdateTraineeRoutine\<close> and
  \<^verbatim>\<open>UpdateRegistration\<close> answer \<^verbatim>\<open>INTERNAL\<close>.
\<close>

theorem logout_then_update:
  "fst (DeleteSession env0 ''tok'' server0) = Inr ''Successfully logged out''
   \<and> jwt_verify env0 ''tok'' = Some \<lparr>u_traineeId = ''u1'', u_email = ''a@x.com''\<rparr>
   \<and> fst (GetTrainee env0 ''tok'' ''u1'' server1)
       = Inl (GrpcError UNAUTHENTICATED ''Token is revoked'')
   \<and> fst (UpdateTrainee env0 ''tok'' ''u1'' (Some ''A2'') None None None server1)
       = Inl (GrpcError INTERNAL ''Internal server error'')
   \<and> fst (UpdateWorkout env0 ''tok'' ''w1'' (Some ''HIIT 2'') None None None server1)
       = Inl (GrpcError INTERNAL ''Internal server error'')
   \<and> fst (UpdateTraineeRoutine env0 ''tok'' ''u1'' [sunday] server1)
       = Inl (GrpcError INTERNAL ''Internal server error'')
   \<and> fst (UpdateRegistration env0 ''tok'' ''g1'' None None None None None (Some ''done'') server1)
       = Inl (GrpcError INTERNAL ''Internal server error'')"
proof -
  have r: "''tok'' \<noteq> ''''" "''tok'' \<in> revokedTokens server1"
    by (simp_all add: server1_eq)
  have "fst (DeleteSession env0 ''tok'' server0) = Inr ''Successfully logged out''"
    by (simp add: DeleteSession_def authenticateToken_def env0_def server0_def)
  moreover have "jwt_verify env0 ''tok'' = Some \<lparr>u_traineeId = ''u1'', u_email = ''a@x.com''\<rparr>"
    by (simp add: env0_def)
  ultimately show ?thesis
    by (simp add: revoked_token_rejected [OF r] revoked_token_update_handlers [OF r] internal_def)
qed

subsection \<open>Creating a trainee\<close>

lemma find_email_Some:
  "email \<in> t_email ` set rows \<Longrightarrow> \<exists>t. find (\<lambda>t. t_email t = email) rows = Some t"
  by (cases "find (\<lambda>t. t_email t = email) rows") (auto simp: find_None_iff)

lemma CreateTrainee_missing_field:
  assumes "name = '''' \<or> email = '''' \<or> password = ''''"
  shows "CreateTrainee e name email password timezone s
        = (Inl (GrpcError INVALID_ARGUMENT ''Name, email, and password are required''), s)"
  using assms by (simp add: CreateTrainee_def)

lemma CreateTrainee_existing_ALREADY_EXISTS:
  assumes "name \<noteq> ''''" and "email \<noteq> ''''" and "password \<noteq> ''''"
    and "email \<in> t_email ` set (trainees s)"
  shows "CreateTrainee e name email password timezone s
        = (Inl (GrpcError ALREADY_EXISTS ''Email is already in use''), s)"
proof -
  obtain t where f: "find (\<lambda>t. t_email t = email) (trainees s) = Some t"
    using assms(4) find_email_Some by blast
  show ?thesis
    unfolding CreateTrainee_def f using assms(1-3) by simp
qed

text \<open>
  Claim C7, as amended. A \<^verbatim>\<open>CreateTrainee\<close> request whose email is the email of a stored
  trainee changes nothing: when its name, email and password are all there, it fails with
  \<^verbatim>\<open>ALREADY_EXISTS\<close>; when one of them is missing, it fails with \<^verbatim>\<open>INVALID_ARGUMENT\<close>.
\<close>

theorem CreateTrainee_duplicate_email:
  "(email \<in> t_email ` set (trainees s) \<and> name \<noteq> '''' \<and> email \<noteq> '''' \<and> password \<noteq> '''' \<longrightarrow>
      CreateTrainee e name email password timezone s
        = (Inl (GrpcError ALREADY_EXISTS ''Email is already in use''), s))
   \<and> (email \<in> t_email ` set (trainees s) \<and> (name = '''' \<or> email = '''' \<or> password = '''') \<longrightarrow>
      CreateTrainee e name email password timezone s
        = (Inl (GrpcError INVALID_ARGUMENT ''Name, email, and password are required''), s))"
proof (intro conjI impI)
  assume "email \<in> t_email ` set (trainees s) \<and> name \<noteq> '''' \<and> email \<noteq> '''' \<and> password \<noteq> ''''"
  then show "CreateTrainee e name email password timezone s
        = (Inl (GrpcError ALREADY_EXISTS ''Email is already in use''), s)"
    by (simp add: CreateTrainee_existing_ALREADY_EXISTS)
next
  assume "email \<in> t_email ` set (trainees s) \<and> (name = '''' \<or> email = '''' \<or> password = '''')"
  then have "name = '''' \<or> email = '''' \<or> password = ''''"
    by (rule conjunct2)
  then show "CreateTrainee e name email password timezone s
        = (Inl (GrpcError INVALID_ARGUMENT ''Name, email, and password are required''), s)"
    by (rule CreateTrainee_missing_field)
qed

text \<open>
  The first trainee of the small server, created again: with a password and without one.
\<close>

theorem CreateTrainee_duplicate_email_witness:
  "''a@x.com'' \<in> t_email ` set (trainees server0)
   \<and> CreateTrainee env0 ''A again'' ''a@x.com'' ''pw3'' ''UTC'' server0
       = (Inl (GrpcError ALREADY_EXISTS ''Email is already in use''), server0)
   \<and> CreateTrainee env0 ''A again'' ''a@x.com'' '''' ''UTC'' server0
       = (Inl (GrpcError INVALID_ARGUMENT ''Name, email, and password are required''), server0)"
proof -
  have h: "''a@x.com'' \<in> t_email ` set (trainees server0)"
    by (simp add: server0_def alice_def)
  from CreateTrainee_duplicate_email [of "''a@x.com''" server0 "''A again''" "''pw3''" env0 "''UTC''"]
    CreateTrainee_duplicate_email [of "''a@x.com''" server0 "''A again''" "''''" env0 "''UTC''"] h
  show ?thesis
    by simp
qed

text \<open>
  Claim C7, as stated, fails: a request with the email of a stored trainee and no name is
  answered with \<^verbatim>\<open>INVALID_ARGUMENT\<close>, because the required fields are checked first.
\<close>

theorem CreateTrainee_duplicate_email_missing_name:
  "''a@x.com'' \<in> t_email ` set (trainees server0)
   \<and> fst (CreateTrainee env0 '''' ''a@x.com'' ''pw'' ''UTC'' server0)
       = Inl (GrpcError INVALID_ARGUMENT ''Name, email, and password are required'')
   \<and> fst (CreateTrainee env0 '''' ''a@x.com'' ''pw'' ''UTC'' server0)
       \<noteq> Inl (GrpcError ALREADY_EXISTS ''Email is already in use'')"
  by (simp add: CreateTrainee_def server0_def alice_def)

subsection \<open>Listing trainees\<close>

lemma ListTrainees_window:
  assumes "authenticateToken e s token = Inr decoded" and "1 \<le> p" and "1 \<le> ps"
  shows "ListTrainees e token (Some (PaginationRequest p ps)) s =
     (Inr (ListTraineesResponse
             (map public_trainee (take (nat ps) (drop (nat ((p - 1) * ps)) (trainees s))))
             (PaginationResponse p ps (int (length (trainees s))))), s)"
proof -
  have "0 \<le> (p - 1) * ps"
    using assms(2,3) by simp
  then have "findMany_skip_take ((p - 1) * ps) ps (trainees s)
               = Inr (take (nat ps) (drop (nat ((p - 1) * ps)) (trainees s)))"
    using assms(3) by (simp add: findMany_skip_take_def)
  moreover have "public_trainee = (\<lambda>t. formatTrainee (Some (select_fields trainee_select (trainee_object t))))"
    by (simp add: public_trainee_def fun_eq_iff)
  ultimately show ?thesis
    using assms by (simp add: ListTrainees_def Let_def)
qed

lemma ListTrainees_default:
  assumes "authenticateToken e s token = Inr decoded"
  shows "ListTrainees e token None s =
     (Inr (ListTraineesResponse (map public_trainee (take 20 (trainees s)))
             (PaginationResponse 1 20 (int (length (trainees s))))), s)"
proof -
  have "public_trainee = (\<lambda>t. formatTrainee (Some (select_fields trainee_select (trainee_object t))))"
    by (simp add: public_trainee_def fun_eq_iff)
  then show ?thesis
    using assms by (simp add: ListTrainees_def findMany_skip_take_def Let_def)
qed

lemma ListTrainees_zero_is_default:
  "ListTrainees e token (Some (PaginationRequest p ps)) s =
   ListTrainees e token
     (Some (PaginationRequest (if p = 0 then 1 else p) (if ps = 0 then 20 else ps))) s"
  by (cases "authenticateToken e s token") (simp_all add: ListTrainees_def Let_def)

lemma take5_drop5_of_12:
  assumes "length xs = 12"
  shows "take 5 (drop 5 xs) = [xs ! 5, xs ! 6, xs ! 7, xs ! 8, xs ! 9]"
proof -
  have d: "\<And>i. i < 12 \<Longrightarrow> drop i xs = xs ! i # drop (Suc i) xs"
    using assms by (simp add: Cons_nth_drop_Suc)
  show ?thesis
    by (simp add: d)
qed

lemma ListTrainees_total:
  "fst (ListTrainees e token pagination s)
     = Inr (ListTraineesResponse data (PaginationResponse p ps stored))
   \<Longrightarrow> int (length (trainees s)) = stored"
  by (auto simp: ListTrainees_def Let_def split: sum.splits)

lemma ListTrainees_negative_skip:
  assumes "p < 0" and "1 \<le> ps"
  shows "isl (fst (ListTrainees e token (Some (PaginationRequest p ps)) s))"
proof (cases "authenticateToken e s token")
  case (Inl error)
  then show ?thesis
    by (simp add: ListTrainees_def)
next
  case (Inr decoded)
  have "(p - 1) * ps < 0"
    using assms by (simp add: mult_neg_pos)
  then have "findMany_skip_take ((p - 1) * ps) ps (trainees s) = Inl JsError"
    by (simp add: findMany_skip_take_def)
  then show ?thesis
    using assms Inr by (simp add: ListTrainees_def Let_def)
qed

lemma ListTrainees_answer:
  assumes "0 \<le> page_size"
    and "fst (ListTrainees e token (Some (PaginationRequest page page_size)) s) = Inr response"
  shows "response =
           ListTraineesResponse
             (map public_trainee
                (take (nat (if page_size = 0 then 20 else page_size))
                   (drop (nat (((if page = 0 then 1 else page) - 1)
                               * (if page_size = 0 then 20 else page_size)))
                      (trainees s))))
             (PaginationResponse (if page = 0 then 1 else page)
                (if page_size = 0 then 20 else page_size)
                (int (length (trainees s))))"
proof (cases "authenticateToken e s token")
  case (Inl error)
  then show ?thesis
    using assms(2) by (simp add: ListTrainees_def)
next
  case (Inr decoded)
  have ps: "1 \<le> (if page_size = 0 then 20 else page_size)"
    using assms(1) by auto
  have r: "fst (ListTrainees e token
                 (Some (PaginationRequest (if page = 0 then 1 else page)
                          (if page_size = 0 then 20 else page_size))) s) = Inr response"
    using assms(2) by (simp only: ListTrainees_zero_is_default [of e token page page_size s])
  show ?thesis
  proof (cases "page < 0")
    case True
    then have "isl (fst (ListTrainees e token
                 (Some (PaginationRequest (if page = 0 then 1 else page)
                          (if page_size = 0 then 20 else page_size))) s))"
      using ps by (intro ListTrainees_negative_skip) auto
    then show ?thesis
      unfolding r by simp
  next
    case False
    then have "1 \<le> (if page = 0 then 1 else page)"
      by auto
    from ListTrainees_window [OF Inr this ps] r
    show ?thesis
      by simp
  qed
qed

text \<open>
  Claim C6, as amended. For a \<^verbatim>\<open>ListTrainees\<close> request whose page size is not negative:
  without a \<^verbatim>\<open>pagination\<close> the page is the first one and its size is 20, and a page or a
  size of 0 stands for the default; every answer is the page that starts at offset
  \<open>(page - 1) * page_size\<close>, pages counted from 1, with the page, the size and the number
  of stored trainees; the request is answered when its token authenticates and its page is
  not negative; the size is used as it is, so a size that is at least the number of stored
  trainees returns them all; and page 2 of size 5 over 12 stored trainees is the sixth to
  the tenth of them, with total 12. The total of any answer at all, whatever the page and
  the size, is the number of stored trainees.
\<close>

theorem ListTrainees_pagination:
  "(authenticateToken e s token = Inr decoded \<longrightarrow>
      ListTrainees e token None s =
        (Inr (ListTraineesResponse (map public_trainee (take 20 (trainees s)))
                (PaginationResponse 1 20 (int (length (trainees s))))), s))
   \<and> (0 \<le> page_size
       \<and> fst (ListTrainees e token (Some (PaginationRequest page page_size)) s) = Inr response \<longrightarrow>
      response =
        ListTraineesResponse
          (map public_trainee
             (take (nat (if page_size = 0 then 20 else page_size))
                (drop (nat (((if page = 0 then 1 else page) - 1)
                            * (if page_size = 0 then 20 else page_size)))
                   (trainees s))))
          (PaginationResponse (if page = 0 then 1 else page)
             (if page_size = 0 then 20 else page_size)
             (int (length (trainees s)))))
   \<and> (authenticateToken e s token = Inr decoded \<and> 0 \<le> page \<and> 0 \<le> page_size \<longrightarrow>
      ListTrainees e token (Some (PaginationRequest page page_size)) s =
        (Inr (ListTraineesResponse
                (map public_trainee
                   (take (nat (if page_size = 0 then 20 else page_size))
                      (drop (nat (((if page = 0 then 1 else page) - 1)
                                  * (if page_size = 0 then 20 else page_size)))
                         (trainees s))))
                (PaginationResponse (if page = 0 then 1 else page)
                   (if page_size = 0 then 20 else page_size)
                   (int (length (trainees s))))), s))
   \<and> (authenticateToken e s token = Inr decoded
       \<and> int (length (trainees s)) \<le> page_size \<and> 1 \<le> page_size \<longrightarrow>
      ListTrainees e token (Some (PaginationRequest 1 page_size)) s =
        (Inr (ListTraineesResponse (map public_trainee (trainees s))
                (PaginationResponse 1 page_size (int (length (trainees s))))), s))
   \<and> (authenticateToken e s token = Inr decoded \<and> length (trainees s) = 12 \<longrightarrow>
      ListTrainees e token (Some (PaginationRequest 2 5)) s =
        (Inr (ListTraineesResponse
                (map public_trainee
                   [trainees s ! 5, trainees s ! 6, trainees s ! 7, trainees s ! 8,
                    trainees s ! 9])
                (PaginationResponse 2 5 12)), s))
   \<and> (fst (ListTrainees e token pagination s)
         = Inr (ListTraineesResponse data (PaginationResponse p ps stored))
       \<longrightarrow> int (length (trainees s)) = stored)"
proof (intro conjI impI)
  assume "authenticateToken e s token = Inr decoded"
  then show "ListTrainees e token None s =
           (Inr (ListTraineesResponse (map public_trainee (take 20 (trainees s)))
                   (PaginationResponse 1 20 (int (length (trainees s))))), s)"
    by (rule ListTrainees_default)
next
  assume "0 \<le> page_size
       \<and> fst (ListTrainees e token (Some (PaginationRequest page page_size)) s) = Inr response"
  then have "0 \<le> page_size"
    and "fst (ListTrainees e token (Some (PaginationRequest page page_size)) s) = Inr response"
    by simp_all
  then show "response =
        ListTraineesResponse
          (map public_trainee
             (take (nat (if page_size = 0 then 20 else page_size))
                (drop (nat (((if page = 0 then 1 else page) - 1)
                            * (if page_size = 0 then 20 else page_size)))
                   (trainees s))))
          (PaginationResponse (if page = 0 then 1 else page)
             (if page_size = 0 then 20 else page_size)
             (int (length (trainees s))))"
    by (rule ListTrainees_answer)
next
  assume a: "authenticateToken e s token = Inr decoded \<and> 0 \<le> page \<and> 0 \<le> page_size"
  then have t: "authenticateToken e s token = Inr decoded"
    and "1 \<le> (if page = 0 then 1 else page)"
    and "1 \<le> (if page_size = 0 then 20 else page_size)"
    by auto
  from ListTrainees_window [OF this]
  show "ListTrainees e token (Some (PaginationRequest page page_size)) s =
           (Inr (ListTraineesResponse
                   (map public_trainee
                      (take (nat (if page_size = 0 then 20 else page_size))
                         (drop (nat (((if page = 0 then 1 else page) - 1)
                                     * (if page_size = 0 then 20 else page_size)))
                            (trainees s))))
                   (PaginationResponse (if page = 0 then 1 else page)
                      (if page_size = 0 then 20 else page_size)
                      (int (length (trainees s))))), s)"
    by (simp only: ListTrainees_zero_is_default [of e token page page_size s])
next
  assume "authenticateToken e s token = Inr decoded
       \<and> int (length (trainees s)) \<le> page_size \<and> 1 \<le> page_size"
  then have t: "authenticateToken e s token = Inr decoded"
    and ps: "1 \<le> page_size" and "length (trainees s) \<le> nat page_size"
    by auto
  then have "take (nat page_size) (trainees s) = trainees s"
    by simp
  with ListTrainees_window [OF t _ ps, of 1]
  show "ListTrainees e token (Some (PaginationRequest 1 page_size)) s =
           (Inr (ListTraineesResponse (map public_trainee (trainees s))
                   (PaginationResponse 1 page_size (int (length (trainees s))))), s)"
    by simp
next
  assume "authenticateToken e s token = Inr decoded \<and> length (trainees s) = 12"
  then have t: "authenticateToken e s token = Inr decoded" and l: "length (trainees s) = 12"
    by simp_all
  from ListTrainees_window [OF t, of 2 5] take5_drop5_of_12 [OF l] l
  show "ListTrainees e token (Some (PaginationRequest 2 5)) s =
           (Inr (ListTraineesResponse
                   (map public_trainee
                      [trainees s ! 5, trainees s ! 6, trainees s ! 7, trainees s ! 8,
                       trainees s ! 9])
                   (PaginationResponse 2 5 12)), s)"
    by simp
next
  assume "fst (ListTrainees e token pagination s)
           = Inr (ListTraineesResponse data (PaginationResponse p ps stored))"
  then show "int (length (trainees s)) = stored"
    by (rule ListTrainees_total)
qed

text \<open>
  Claim C6, as stated, fails. The handler takes a negative page size as it is (only 0 is
  replaced by the default) and hands it to \<^verbatim>\<open>findMany\<close>, which then counts from the end
  of the table: page 1 of size \<open>-5\<close> over the twelve trainees of \<open>server12\<close> is the eighth
  to the twelfth of them, and not a page that starts at offset \<open>(1 - 1) * (-5) = 0\<close> with
  the first.
\<close>

theorem ListTrainees_negative_page_size:
  "ListTrainees env0 ''tok'' (Some (PaginationRequest 1 (- 5))) server12 =
     (Inr (ListTraineesResponse
             (map public_trainee [member 8, member 9, member 10, member 11, member 12])
             (PaginationResponse 1 (- 5) 12)), server12)
   \<and> (1 - 1) * (- 5) = (0::int)
   \<and> trainees server12 ! 0 = member 1
   \<and> trainees server12 ! 7 = member 8
   \<and> public_trainee (member 8) \<noteq> public_trainee (member 1)"
proof -
  have a: "authenticateToken env0 server12 ''tok''
             = Inr \<lparr>u_traineeId = ''u1'', u_email = ''a@x.com''\<rparr>"
    by (simp add: authenticateToken_def env0_def server12_def)
  have p: "public_trainee = (\<lambda>t. formatTrainee (Some (select_fields trainee_select (trainee_object t))))"
    by (simp add: public_trainee_def fun_eq_iff)
  have l: "ListTrainees env0 ''tok'' (Some (PaginationRequest 1 (- 5))) server12 =
     (Inr (ListTraineesResponse
             (map public_trainee [member 8, member 9, member 10, member 11, member 12])
             (PaginationResponse 1 (- 5) 12)), server12)"
    unfolding ListTrainees_def a p by (simp add: findMany_skip_take_def server12_def)
  have n: "public_trainee (member 8) \<noteq> public_trainee (member 1)"
    by (simp add: public_trainee_def member_def formatTrainee_def select_fields_def
        trainee_select_def trainee_object_def obj_get_def)
  show ?thesis
    using l n by (simp add: server12_def)
qed

text \<open>
  The twelve trainees of \<open>server12\<close>: page 2 of size 5, page 3 of the default size, and
  one page of a million.
\<close>

theorem ListTrainees_pagination_witness:
  "authenticateToken env0 server12 ''tok'' = Inr \<lparr>u_traineeId = ''u1'', u_email = ''a@x.com''\<rparr>
   \<and> length (trainees server12) = 12
   \<and> ListTrainees env0 ''tok'' (Some (PaginationRequest 2 5)) server12 =
        (Inr (ListTraineesResponse
                (map public_trainee [member 6, member 7, member 8, member 9, member 10])
                (PaginationResponse 2 5 12)), server12)
   \<and> (0::int) \<le> 3 \<and> (0::int) \<le> 0
   \<and> ListTrainees env0 ''tok'' (Some (PaginationRequest 3 0)) server12 =
        (Inr (ListTraineesResponse [] (PaginationResponse 3 20 12)), server12)
   \<and> int (length (trainees server12)) \<le> 1000000 \<and> (1::int) \<le> 1000000
   \<and> ListTrainees env0 ''tok'' (Some (PaginationRequest 1 1000000)) server12 =
        (Inr (ListTraineesResponse (map public_trainee (trainees server12))
                (PaginationResponse 1 1000000 12)), server12)"
proof -
  have a: "authenticateToken env0 server12 ''tok''
             = Inr \<lparr>u_traineeId = ''u1'', u_email = ''a@x.com''\<rparr>"
    by (simp add: authenticateToken_def env0_def server12_def)
  have l: "length (trainees server12) = 12"
    by (simp add: server12_def)
  have n: "trainees server12 ! 5 = member 6" "trainees server12 ! 6 = member 7"
    "trainees server12 ! 7 = member 8" "trainees server12 ! 8 = member 9"
    "trainees server12 ! 9 = member 10"
    by (simp_all add: server12_def)
  from ListTrainees_pagination
      [where e = env0 and s = server12 and token = "''tok''"
         and decoded = "\<lparr>u_traineeId = ''u1'', u_email = ''a@x.com''\<rparr>"
         and page = 3 and page_size = 0 and pagination = "Some (PaginationRequest 2 5)"
         and response = "ListTraineesResponse [] (PaginationResponse 3 20 12)"
         and data = "map public_trainee [member 6, member 7, member 8, member 9, member 10]"
         and p = 2 and ps = 5 and stored = 12]
    ListTrainees_pagination
      [where e = env0 and s = server12 and token = "''tok''"
         and decoded = "\<lparr>u_traineeId = ''u1'', u_email = ''a@x.com''\<rparr>"
         and page = 1 and page_size = 1000000
         and pagination = "Some (PaginationRequest 2 5)"
         and response = "ListTraineesResponse (map public_trainee (trainees server12))
                           (PaginationResponse 1 1000000 12)"
         and data = "map public_trainee [member 6, member 7, member 8, member 9, member 10]"
         and p = 2 and ps = 5 and stored = 12]
  show ?thesis
    by (simp add: a l n)
qed

subsection \<open>Password redaction\<close>

lemma fields_obj_set: "fst ` set (obj_set obj k v) = insert k (fst ` set obj)"
proof (induction obj)
  case Nil
  show ?case by simp
next
  case (Cons kv obj)
  then show ?case
    by (cases kv) (simp add: insert_commute)
qed

lemma no_password_formatTrainee: "no_password (formatTrainee trainee)"
  by (cases trainee)
    (auto simp: no_password_def formatTrainee_def has_field_def fields_obj_set Let_def)

lemma no_password_formatRoutine: "no_password (rm_trainee (formatRoutine routine))"
  by (cases "snd routine")
    (simp_all add: formatRoutine_def no_password_formatTrainee, simp add: no_password_def)

lemma no_password_formatRegistration: "no_password (gm_trainee (formatRegistration registration))"
  by (cases "snd registration")
    (simp_all add: formatRegistration_def no_password_formatTrainee, simp add: no_password_def)

lemma CreateSession_no_password:
  "fst (CreateSession e email password s) = Inr (CreateSessionResponse token trainee)
   \<Longrightarrow> no_password trainee"
  by (auto simp: CreateSession_def no_password_formatTrainee split: if_splits option.splits)

lemma CheckSession_no_password:
  "fst (CheckSession e token s) = Inr (CheckSessionResponse authenticated trainee)
   \<Longrightarrow> no_password trainee"
  by (auto simp: CheckSession_def no_password_formatTrainee split: sum.splits option.splits)

lemma ListTrainees_no_password:
  "fst (ListTrainees e token pagination s) = Inr (ListTraineesResponse data pg)
   \<Longrightarrow> list_all no_password data"
  by (auto simp: ListTrainees_def Let_def list_all_iff no_password_formatTrainee
      split: sum.splits)

lemma CreateTrainee_no_password:
  "fst (CreateTrainee e name email password timezone s) = Inr trainee \<Longrightarrow> no_password trainee"
  by (auto simp: CreateTrainee_def no_password_formatTrainee
      split: if_splits option.splits sum.splits)

lemma GetTrainee_no_password:
  "fst (GetTrainee e token trainee_id s) = Inr trainee \<Longrightarrow> no_password trainee"
  by (auto simp: GetTrainee_def no_password_formatTrainee split: sum.splits option.splits)

lemma UpdateTrainee_no_password:
  "fst (UpdateTrainee e token trainee_id name email password timezone s) = Inr trainee
   \<Longrightarrow> no_password trainee"
  by (auto simp: UpdateTrainee_def Let_def no_password_formatTrainee split: sum.splits)

lemma ListRoutines_no_password:
  "fst (ListRoutines e token trainee_id s) = Inr rs
   \<Longrightarrow> list_all (\<lambda>r. no_password (rm_trainee r)) rs"
  by (auto simp: ListRoutines_def Let_def list_all_iff no_password_formatRoutine
      split: sum.splits)

lemma CreateRoutine_no_password:
  "fst (CreateRoutine e token user_id availability s) = Inr r \<Longrightarrow> no_password (rm_trainee r)"
  by (auto simp: CreateRoutine_def no_password_formatRoutine
      split: sum.splits if_splits option.splits)

lemma GetTraineeRoutine_no_password:
  "fst (GetTraineeRoutine e token trainee_id s) = Inr r \<Longrightarrow> no_password (rm_trainee r)"
  by (auto simp: GetTraineeRoutine_def no_password_formatRoutine
      split: sum.splits option.splits)

lemma UpdateTraineeRoutine_no_password:
  "fst (UpdateTraineeRoutine e token trainee_id availability s) = Inr r
   \<Longrightarrow> no_password (rm_trainee r)"
  by (auto simp: UpdateTraineeRoutine_def no_password_formatRoutine
      split: sum.splits if_splits option.splits prod.splits)

lemma ListRegistrations_no_password:
  "fst (ListRegistrations e token s) = Inr gs
   \<Longrightarrow> list_all (\<lambda>g. no_password (gm_trainee g)) gs"
  by (auto simp: ListRegistrations_def list_all_iff no_password_formatRegistration
      split: sum.splits)

lemma CreateRegistration_no_password:
  "fst (CreateRegistration e token event_id user_id invitee_email start end status s) = Inr g
   \<Longrightarrow> no_password (gm_trainee g)"
  by (auto simp: CreateRegistration_def no_password_formatRegistration
      split: sum.splits if_splits option.splits)

lemma GetRegistration_no_password:
  "fst (GetRegistration e token registration_id s) = Inr g \<Longrightarrow> no_password (gm_trainee g)"
  by (auto simp: GetRegistration_def no_password_formatRegistration
      split: sum.splits option.splits)

lemma UpdateRegistration_no_password:
  "fst (UpdateRegistration e token registration_id event_id user_id invitee_email start end
          status s) = Inr g
   \<Longrightarrow> no_password (gm_trainee g)"
  by (auto simp: UpdateRegistration_def Let_def no_password_formatRegistration
      split: sum.splits)

text \<open>
  Claim C5. Whatever trainee a response carries has no \<^verbatim>\<open>password\<close> field: the trainee of
  \<^verbatim>\<open>CreateSession\<close>, \<^verbatim>\<open>CheckSession\<close>, \<^verbatim>\<open>CreateTrainee\<close>, \<^verbatim>\<open>GetTrainee\<close> and
  \<^verbatim>\<open>UpdateTrainee\<close>, every trainee of \<^verbatim>\<open>ListTrainees\<close>, and the trainee inside every
  routine and registration that the routine and registration handlers answer.
\<close>

theorem responses_without_password:
  "(fst (CreateSession e email password s) = Inr (CreateSessionResponse tok tr1)
      \<longrightarrow> no_password tr1)
   \<and> (fst (CheckSession e token s) = Inr (CheckSessionResponse authenticated tr2)
      \<longrightarrow> no_password tr2)
   \<and> (fst (ListTrainees e token pagination s) = Inr (ListTraineesResponse data pg)
      \<longrightarrow> list_all no_password data)
   \<and> (fst (CreateTrainee e name email2 password2 timezone s) = Inr tr3 \<longrightarrow> no_password tr3)
   \<and> (fst (GetTrainee e token trainee_id s) = Inr tr4 \<longrightarrow> no_password tr4)
   \<and> (fst (UpdateTrainee e token trainee_id name' email' password' timezone' s) = Inr tr5
      \<longrightarrow> no_password tr5)
   \<and> (fst (ListRoutines e token filter_id s) = Inr rs
      \<longrightarrow> list_all (\<lambda>r. no_password (rm_trainee r)) rs)
   \<and> (fst (CreateRoutine e token user_id availability s) = Inr r1
      \<longrightarrow> no_password (rm_trainee r1))
   \<and> (fst (GetTraineeRoutine e token trainee_id s) = Inr r2 \<longrightarrow> no_password (rm_trainee r2))
   \<and> (fst (UpdateTraineeRoutine e token trainee_id availability s) = Inr r3
      \<longrightarrow> no_password (rm_trainee r3))
   \<and> (fst (ListRegistrations e token s) = Inr gs
      \<longrightarrow> list_all (\<lambda>g. no_password (gm_trainee g)) gs)
   \<and> (fst (CreateRegistration e token event_id user_id invitee_email start_time end_time
              status s) = Inr g1
      \<longrightarrow> no_password (gm_trainee g1))
   \<and> (fst (GetRegistration e token registration_id s) = Inr g2
      \<longrightarrow> no_password (gm_trainee g2))
   \<and> (fst (UpdateRegistration e token registration_id event_id' user_id' invitee_email'
              start_time' end_time' status' s) = Inr g3
      \<longrightarrow> no_password (gm_trainee g3))"
  by (intro conjI impI)
    (erule CreateSession_no_password CheckSession_no_password ListTrainees_no_password
      CreateTrainee_no_password GetTrainee_no_password UpdateTrainee_no_password
      ListRoutines_no_password CreateRoutine_no_password GetTraineeRoutine_no_password
      UpdateTraineeRoutine_no_password ListRegistrations_no_password
      CreateRegistration_no_password GetRegistration_no_password
      UpdateRegistration_no_password)+

lemmas example_defs =
  env0_def server0_def alice_def bob_def hiit_def monday_def friday_def sunday_def
  routine1_def routine2_def routine3_def booking_def

lemmas object_defs =
  formatTrainee_def trainee_object_def select_fields_def trainee_select_def
  include_select_def include_trainee_def obj_get_def alice_public_def alice_included_def
  bob_included_def public_trainee_def formatRoutine_def formatRegistration_def
  routine_updateMany_def

text \<open>
  On the small server every one of these handlers answers, and the trainees it answers are
  the first trainee or the second without their passwords.
\<close>

theorem responses_without_password_witness:
  "fst (CreateSession env0 ''a@x.com'' ''pw'' server0)
     = Inr (CreateSessionResponse ''tok'' (Some alice_public))
   \<and> fst (CheckSession env0 ''tok'' server0) = Inr (CheckSessionResponse True (Some alice_public))
   \<and> fst (ListTrainees env0 ''tok'' None server0)
       = Inr (ListTraineesResponse [Some alice_public, public_trainee bob]
                (PaginationResponse 1 20 2))
   \<and> fst (CreateTrainee env0 ''C'' ''c@x.com'' ''pw3'' ''UTC'' server0)
       = Inr (public_trainee \<lparr>t_id = ''n1'', t_name = ''C'', t_email = ''c@x.com'',
                t_password = ''pw3'', t_timezone = ''UTC'', t_createdAt = 5000,
                t_updatedAt = 5000\<rparr>)
   \<and> fst (GetTrainee env0 ''tok'' ''u1'' server0) = Inr (Some alice_public)
   \<and> fst (UpdateTrainee env0 ''tok'' ''u1'' None None (Some ''pw9'') None server0)
       = Inr (public_trainee (alice\<lparr>t_password := ''pw9'', t_updatedAt := 5000\<rparr>))
   \<and> map_sum id (map rm_trainee) (fst (ListRoutines env0 ''tok'' None server0))
       = Inr [Some bob_included, Some alice_included, Some alice_included]
   \<and> map_sum id rm_trainee (fst (CreateRoutine env0 ''tok'' ''u1'' [sunday] server0))
       = Inr (Some alice_included)
   \<and> map_sum id rm_trainee (fst (GetTraineeRoutine env0 ''tok'' ''u1'' server0))
       = Inr (Some alice_included)
   \<and> map_sum id rm_trainee (fst (UpdateTraineeRoutine env0 ''tok'' ''u1'' [sunday] server0))
       = Inr (Some alice_included)
   \<and> map_sum id (map gm_trainee) (fst (ListRegistrations env0 ''tok'' server0))
       = Inr [Some alice_included]
   \<and> map_sum id gm_trainee
         (fst (CreateRegistration env0 ''tok'' ''event-9'' ''u1'' ''a@x.com''
                (Some \<lparr>seconds = 7200, nanos = 0\<rparr>) None '''' server0))
       = Inr (Some alice_included)
   \<and> map_sum id gm_trainee (fst (GetRegistration env0 ''tok'' ''g1'' server0))
       = Inr (Some alice_included)
   \<and> map_sum id gm_trainee
         (fst (UpdateRegistration env0 ''tok'' ''g1'' None None None None None (Some ''done'')
                server0))
       = Inr (Some alice_included)
   \<and> has_field (trainee_object alice) ''password''
   \<and> no_password (Some alice_public) \<and> no_password (public_trainee bob)
   \<and> no_password (Some alice_included) \<and> no_password (Some bob_included)"
proof -
  have a: "authenticateToken env0 server0 ''tok''
             = Inr \<lparr>u_traineeId = ''u1'', u_email = ''a@x.com''\<rparr>"
    by (simp add: authenticateToken_def env0_def server0_def)
  have e1: "fst (CreateSession env0 ''a@x.com'' ''pw'' server0)
     = Inr (CreateSessionResponse ''tok'' (Some alice_public))"
    by (simp add: CreateSession_def example_defs object_defs)
  have e2: "fst (CheckSession env0 ''tok'' server0)
              = Inr (CheckSessionResponse True (Some alice_public))"
    by (simp add: CheckSession_def a) (simp add: example_defs object_defs)
  have e3: "fst (ListTrainees env0 ''tok'' None server0)
       = Inr (ListTraineesResponse [Some alice_public, public_trainee bob]
                (PaginationResponse 1 20 2))"
    by (simp add: ListTrainees_def a findMany_skip_take_def)
      (simp add: example_defs object_defs)
  have e4: "fst (CreateTrainee env0 ''C'' ''c@x.com'' ''pw3'' ''UTC'' server0)
       = Inr (public_trainee \<lparr>t_id = ''n1'', t_name = ''C'', t_email = ''c@x.com'',
                t_password = ''pw3'', t_timezone = ''UTC'', t_createdAt = 5000,
                t_updatedAt = 5000\<rparr>)"
    by (simp add: CreateTrainee_def trainee_create_def example_defs public_trainee_def Let_def)
  have e5: "fst (GetTrainee env0 ''tok'' ''u1'' server0) = Inr (Some alice_public)"
    by (simp add: GetTrainee_def a) (simp add: example_defs object_defs)
  have e6: "fst (UpdateTrainee env0 ''tok'' ''u1'' None None (Some ''pw9'') None server0)
       = Inr (public_trainee (alice\<lparr>t_password := ''pw9'', t_updatedAt := 5000\<rparr>))"
    by (simp add: UpdateTrainee_def a)
      (simp add: trainee_update_def trainee_patch_def example_defs public_trainee_def)
  have e7: "map_sum id (map rm_trainee) (fst (ListRoutines env0 ''tok'' None server0))
       = Inr [Some bob_included, Some alice_included, Some alice_included]"
    by (simp add: ListRoutines_def a orderBy_desc_def formatRoutine_def)
      (simp add: example_defs object_defs)
  have e8: "map_sum id rm_trainee (fst (CreateRoutine env0 ''tok'' ''u1'' [sunday] server0))
       = Inr (Some alice_included)"
    by (simp add: CreateRoutine_def a formatRoutine_def)
      (simp add: routine_create_def formatRoutine_def example_defs object_defs Let_def)
  have e9: "map_sum id rm_trainee (fst (GetTraineeRoutine env0 ''tok'' ''u1'' server0))
       = Inr (Some alice_included)"
    by (simp add: GetTraineeRoutine_def a formatRoutine_def)
      (simp add: example_defs object_defs)
  have e10: "map_sum id rm_trainee
               (fst (UpdateTraineeRoutine env0 ''tok'' ''u1'' [sunday] server0))
       = Inr (Some alice_included)"
    by (simp add: UpdateTraineeRoutine_def a formatRoutine_def)
      (simp add: routine_updateMany_def example_defs object_defs)
  have e11: "map_sum id (map gm_trainee) (fst (ListRegistrations env0 ''tok'' server0))
       = Inr [Some alice_included]"
    by (simp add: ListRegistrations_def a orderBy_desc_def formatRegistration_def)
      (simp add: example_defs object_defs)
  have e12: "map_sum id gm_trainee
         (fst (CreateRegistration env0 ''tok'' ''event-9'' ''u1'' ''a@x.com''
                (Some \<lparr>seconds = 7200, nanos = 0\<rparr>) None '''' server0))
       = Inr (Some alice_included)"
    by (simp add: CreateRegistration_def a formatRegistration_def)
      (simp add: registration_create_def convertFromTimestamp_def new_Date_def
        Number_value_Ints formatRegistration_def example_defs object_defs Let_def)
  have e13: "map_sum id gm_trainee (fst (GetRegistration env0 ''tok'' ''g1'' server0))
       = Inr (Some alice_included)"
    by (simp add: GetRegistration_def a formatRegistration_def)
      (simp add: example_defs object_defs)
  have e14: "map_sum id gm_trainee
         (fst (UpdateRegistration env0 ''tok'' ''g1'' None None None None None (Some ''done'')
                server0))
       = Inr (Some alice_included)"
    by (simp add: UpdateRegistration_def a formatRegistration_def)
      (simp add: registration_update_def registration_patch_def example_defs object_defs)
  have p: "has_field (trainee_object alice) ''password''"
    by (simp add: has_field_def trainee_object_def)
  note T = responses_without_password
    [where e = env0 and s = server0 and token = "''tok''" and email = "''a@x.com''"
       and password = "''pw''" and tok = "''tok''" and ?tr1.0 = "Some alice_public"
       and pagination = None and data = "[Some alice_public, public_trainee bob]"
       and pg = "PaginationResponse 1 20 2" and trainee_id = "''u1''" and filter_id = None]
  from e9 obtain r2 where r2: "fst (GetTraineeRoutine env0 ''tok'' ''u1'' server0) = Inr r2"
    "rm_trainee r2 = Some alice_included"
    by (cases "fst (GetTraineeRoutine env0 ''tok'' ''u1'' server0)") auto
  from e7 obtain rs where rs: "fst (ListRoutines env0 ''tok'' None server0) = Inr rs"
    "map rm_trainee rs = [Some bob_included, Some alice_included, Some alice_included]"
    by (cases "fst (ListRoutines env0 ''tok'' None server0)") auto
  have n1: "no_password (Some alice_public)"
    by (rule T [THEN conjunct1, THEN mp, OF e1])
  have "list_all no_password [Some alice_public, public_trainee bob]"
    by (rule T [THEN conjunct2, THEN conjunct2, THEN conjunct1, THEN mp, OF e3])
  then have n2: "no_password (public_trainee bob)"
    by simp
  have "no_password (rm_trainee r2)"
    by (rule T [THEN conjunct2, THEN conjunct2, THEN conjunct2, THEN conjunct2, THEN conjunct2,
          THEN conjunct2, THEN conjunct2, THEN conjunct2, THEN conjunct1, THEN mp, OF r2(1)])
  then have n3: "no_password (Some alice_included)"
    by (simp add: r2(2))
  have "list_all (\<lambda>r. no_password (rm_trainee r)) rs"
    by (rule T [THEN conjunct2, THEN conjunct2, THEN conjunct2, THEN conjunct2, THEN conjunct2,
          THEN conjunct2, THEN conjunct1, THEN mp, OF rs(1)])
  then have "list_all no_password (map rm_trainee rs)"
    by (simp add: list.pred_map comp_def)
  then have n4: "no_password (Some bob_included)"
    by (simp add: rs(2))
  show ?thesis
    using e1 e2 e3 e4 e5 e6 e7 e8 e9 e10 e11 e12 e13 e14 p n1 n2 n3 n4 by blast
qed

subsection \<open>Partial updates\<close>

lemma find_key_Some:
  "k \<in> key ` set rows \<Longrightarrow> \<exists>r. find (\<lambda>r. key r = k) rows = Some r"
  by (cases "find (\<lambda>r. key r = k) rows") (auto simp: find_None_iff)

lemma map_field_of_patched:
  assumes "\<And>r. field (patch r) = field r"
  shows "map field (map (\<lambda>r. if hit r then patch r else r) rows) = map field rows"
  by (induction rows) (simp_all add: assms)

lemma trainee_update_rows:
  "trainee_update e tid d rows = Inr (t, rows') \<Longrightarrow>
   rows' = map (\<lambda>t. if t_id t = tid then trainee_patch e d t else t) rows"
  by (auto simp: trainee_update_def split: option.splits if_splits)

lemma workout_update_rows:
  "workout_update e wid d rows = Inr (w, rows') \<Longrightarrow>
   rows' = map (\<lambda>w. if w_id w = wid then workout_patch e d w else w) rows"
  by (auto simp: workout_update_def split: option.splits)

lemma registration_update_rows:
  "registration_update e gid d rows = Inr (g, rows') \<Longrightarrow>
   rows' = map (\<lambda>g. if g_id g = gid then registration_patch e d g else g) rows"
  by (auto simp: registration_update_def split: option.splits if_splits)

lemma catch_P2025_internal_valid:
  "\<not> is_invalid_argument (Inl (catch_P2025_internal message error))"
  by (simp add: is_invalid_argument_def catch_P2025_internal_def internal_def)

text \<open>
  What an Update handler does: it fails in its \<^verbatim>\<open>catch\<close> and leaves the
      state as it is, or
  it answers and has patched the rows it names with the \<^verbatim>\<open>updateData\<close> it
      built.
\<close>

lemma UpdateTrainee_outcome:
  obtains (failed) error where
      "UpdateTrainee e token trainee_id name email password timezone s
         = (Inl (catch_P2025_internal ''Trainee not found'' error), s)"
  | (patched) d r where
      "td_name d = (if name \<noteq> None \<and> name \<noteq> Some '''' then name else None)"
      "td_email d = (if email \<noteq> None \<and> email \<noteq> Some '''' then email else None)"
      "td_password d = (if password \<noteq> None \<and> password \<noteq> Some '''' then password
          else None)"
      "td_timezone d = (if timezone \<noteq> None \<and> timezone \<noteq> Some '''' then timezone
          else None)"
      "UpdateTrainee e token trainee_id name email password timezone s
         = (Inr (formatTrainee (Some (select_fields trainee_select (trainee_object r)))),
            s\<lparr>trainees := map (\<lambda>t. if t_id t = trainee_id then trainee_patch e d t
                else t) (trainees s)\<rparr>)"
proof (cases "authenticateToken e s token")
  case (Inl err)
  then have "UpdateTrainee e token trainee_id name email password timezone s
         = (Inl (catch_P2025_internal ''Trainee not found'' err), s)"
    by (simp add: UpdateTrainee_def)
  then show ?thesis
    by (rule failed)
next
  case (Inr decoded)
  define d where "d =
    \<lparr>td_name = (if name \<noteq> None \<and> name \<noteq> Some '''' then name else None),
     td_email = (if email \<noteq> None \<and> email \<noteq> Some '''' then email else None),
     td_password = (if password \<noteq> None \<and> password \<noteq> Some '''' then password else
         None),
     td_timezone = (if timezone \<noteq> None \<and> timezone \<noteq> Some '''' then timezone else
         None)\<rparr>"
  have u: "UpdateTrainee e token trainee_id name email password timezone s =
      (case trainee_update e trainee_id d (trainees s) of
         Inl error \<Rightarrow> (Inl (catch_P2025_internal ''Trainee not found'' error), s)
       | Inr (r, rows) \<Rightarrow>
           (Inr (formatTrainee (Some (select_fields trainee_select (trainee_object r)))),
            s\<lparr>trainees := rows\<rparr>))"
    by (simp add: UpdateTrainee_def Inr Let_def d_def)
  show ?thesis
  proof (cases "trainee_update e trainee_id d (trainees s)")
    case (Inl err)
    then have "UpdateTrainee e token trainee_id name email password timezone s
         = (Inl (catch_P2025_internal ''Trainee not found'' err), s)"
      by (simp add: u)
    then show ?thesis
      by (rule failed)
  next
    case (Inr p)
    obtain r rows where p: "p = (r, rows)"
      by (cases p)
    have "rows = map (\<lambda>t. if t_id t = trainee_id then trainee_patch e d t else t) (trainees
        s)"
      using Inr p by (simp add: trainee_update_rows)
    then have "UpdateTrainee e token trainee_id name email password timezone s
         = (Inr (formatTrainee (Some (select_fields trainee_select (trainee_object r)))),
            s\<lparr>trainees := map (\<lambda>t. if t_id t = trainee_id then trainee_patch e d t
                else t) (trainees s)\<rparr>)"
      by (simp add: u Inr p)
    then show ?thesis
      by (intro patched [of d r]) (simp_all add: d_def)
  qed
qed

lemma UpdateTrainee_keeps:
  "((name = None \<or> name = Some '''') \<longrightarrow>
      map t_name (trainees (snd (UpdateTrainee e token trainee_id name email password timezone s)))
        = map t_name (trainees s))
   \<and> ((email = None \<or> email = Some '''') \<longrightarrow>
      map t_email (trainees (snd (UpdateTrainee e token trainee_id name email password timezone s)))
        = map t_email (trainees s))
   \<and> ((password = None \<or> password = Some '''') \<longrightarrow>
      map t_password (trainees (snd (UpdateTrainee e token trainee_id name email password timezone
          s)))
        = map t_password (trainees s))
   \<and> ((timezone = None \<or> timezone = Some '''') \<longrightarrow>
      map t_timezone (trainees (snd (UpdateTrainee e token trainee_id name email password timezone
          s)))
        = map t_timezone (trainees s))"
proof (cases rule: UpdateTrainee_outcome [of e token trainee_id name email password timezone s])
  case (failed error)
  show ?thesis
    unfolding failed by simp
next
  case (patched d r)
  have "td_name d = None \<Longrightarrow> map t_name (map (\<lambda>t. if t_id t = trainee_id then
      trainee_patch e d t else t) (trainees s)) = map t_name (trainees s)"
    by (rule map_field_of_patched) (simp add: trainee_patch_def)
  moreover have "td_email d = None \<Longrightarrow> map t_email (map (\<lambda>t. if t_id t =
      trainee_id then trainee_patch e d t else t) (trainees s)) = map t_email (trainees s)"
    by (rule map_field_of_patched) (simp add: trainee_patch_def)
  moreover have "td_password d = None \<Longrightarrow> map t_password (map (\<lambda>t. if t_id t
      = trainee_id then trainee_patch e d t else t) (trainees s)) = map t_password (trainees s)"
    by (rule map_field_of_patched) (simp add: trainee_patch_def)
  moreover have "td_timezone d = None \<Longrightarrow> map t_timezone (map (\<lambda>t. if t_id t
      = trainee_id then trainee_patch e d t else t) (trainees s)) = map t_timezone (trainees s)"
    by (rule map_field_of_patched) (simp add: trainee_patch_def)
  ultimately show ?thesis
    unfolding patched(5) using patched(1-4) by auto
qed

lemma UpdateTrainee_not_invalid_argument:
  "\<not> is_invalid_argument (fst (UpdateTrainee e token trainee_id name email password timezone
      s))"
proof (cases rule: UpdateTrainee_outcome [of e token trainee_id name email password timezone s])
  case (failed error)
  show ?thesis
    unfolding failed by (simp add: catch_P2025_internal_valid)
next
  case (patched d r)
  show ?thesis
    unfolding patched(5) by (simp add: is_invalid_argument_def)
qed

lemma UpdateTrainee_all_absent:
  assumes "authenticateToken e s token = Inr decoded"
    and "trainee_id \<in> t_id ` set (trainees s)"
    and "name = None \<or> name = Some ''''"
    and "email = None \<or> email = Some ''''"
    and "password = None \<or> password = Some ''''"
    and "timezone = None \<or> timezone = Some ''''"
  shows "\<not> isl (fst (UpdateTrainee e token trainee_id name email password timezone s))"
    and "snd (UpdateTrainee e token trainee_id name email password timezone s)
           = s\<lparr>trainees := map (\<lambda>t. if t_id t = trainee_id then t\<lparr>t_updatedAt
               := now e\<rparr> else t) (trainees s)\<rparr>"
proof -
  obtain old where old: "find (\<lambda>t. t_id t = trainee_id) (trainees s) = Some old"
    using find_key_Some [OF assms(2)] by blast
  define d where "d =
    \<lparr>td_name = (if name \<noteq> None \<and> name \<noteq> Some '''' then name else None),
     td_email = (if email \<noteq> None \<and> email \<noteq> Some '''' then email else None),
     td_password = (if password \<noteq> None \<and> password \<noteq> Some '''' then password else
         None),
     td_timezone = (if timezone \<noteq> None \<and> timezone \<noteq> Some '''' then timezone else
         None)\<rparr>"
  have dn: "d = \<lparr>td_name = None, td_email = None, td_password = None, td_timezone =
      None\<rparr>"
    using assms(3-6) by (auto simp: d_def)
  have p: "\<And>t. trainee_patch e \<lparr>td_name = None, td_email = None, td_password = None,
      td_timezone = None\<rparr> t = t\<lparr>t_updatedAt := now e\<rparr>"
    by (simp add: trainee_patch_def)
  have u0: "UpdateTrainee e token trainee_id name email password timezone s =
      (case trainee_update e trainee_id d (trainees s) of
         Inl error \<Rightarrow> (Inl (catch_P2025_internal ''Trainee not found'' error), s)
       | Inr (r, rows) \<Rightarrow>
           (Inr (formatTrainee (Some (select_fields trainee_select (trainee_object r)))),
            s\<lparr>trainees := rows\<rparr>))"
    by (simp add: UpdateTrainee_def assms(1) Let_def d_def)
  have r: "trainee_update e trainee_id d (trainees s)
      = Inr (old\<lparr>t_updatedAt := now e\<rparr>, map (\<lambda>t. if t_id t = trainee_id then
          t\<lparr>t_updatedAt := now e\<rparr> else t) (trainees s))"
    unfolding dn trainee_update_def old by (simp add: p)
  have u: "UpdateTrainee e token trainee_id name email password timezone s
      = (Inr (formatTrainee (Some (select_fields trainee_select (trainee_object
          (old\<lparr>t_updatedAt := now e\<rparr>))))),
            s\<lparr>trainees := map (\<lambda>t. if t_id t = trainee_id then t\<lparr>t_updatedAt
                := now e\<rparr> else t) (trainees s)\<rparr>)"
    unfolding u0 r by simp
  show "\<not> isl (fst (UpdateTrainee e token trainee_id name email password timezone s))"
    by (simp add: u)
  show "snd (UpdateTrainee e token trainee_id name email password timezone s)
           = s\<lparr>trainees := map (\<lambda>t. if t_id t = trainee_id then t\<lparr>t_updatedAt
               := now e\<rparr> else t) (trainees s)\<rparr>"
    by (simp add: u)
qed

lemma UpdateWorkout_outcome:
  obtains (failed) error where
      "UpdateWorkout e token workout_id name duration description color s
         = (Inl (catch_P2025_internal ''Workout not found'' error), s)"
  | (patched) d r where
      "wd_name d = (if name \<noteq> None \<and> name \<noteq> Some '''' then name else None)"
      "wd_duration d = (if duration \<noteq> None then duration else None)"
      "wd_description d = (if description \<noteq> None \<and> description \<noteq> Some '''' then
          description else None)"
      "wd_color d = (if color \<noteq> None \<and> color \<noteq> Some '''' then color else None)"
      "UpdateWorkout e token workout_id name duration description color s
         = (Inr r,
            s\<lparr>workouts := map (\<lambda>w. if w_id w = workout_id then workout_patch e d w
                else w) (workouts s)\<rparr>)"
proof (cases "authenticateToken e s token")
  case (Inl err)
  then have "UpdateWorkout e token workout_id name duration description color s
         = (Inl (catch_P2025_internal ''Workout not found'' err), s)"
    by (simp add: UpdateWorkout_def)
  then show ?thesis
    by (rule failed)
next
  case (Inr decoded)
  define d where "d =
    \<lparr>wd_name = (if name \<noteq> None \<and> name \<noteq> Some '''' then name else None),
     wd_duration = (if duration \<noteq> None then duration else None),
     wd_description = (if description \<noteq> None \<and> description \<noteq> Some '''' then
         description else None),
     wd_color = (if color \<noteq> None \<and> color \<noteq> Some '''' then color else
         None)\<rparr>"
  have u: "UpdateWorkout e token workout_id name duration description color s =
      (case workout_update e workout_id d (workouts s) of
         Inl error \<Rightarrow> (Inl (catch_P2025_internal ''Workout not found'' error), s)
       | Inr (r, rows) \<Rightarrow>
           (Inr r,
            s\<lparr>workouts := rows\<rparr>))"
    by (simp add: UpdateWorkout_def Inr Let_def d_def)
  show ?thesis
  proof (cases "workout_update e workout_id d (workouts s)")
    case (Inl err)
    then have "UpdateWorkout e token workout_id name duration description color s
         = (Inl (catch_P2025_internal ''Workout not found'' err), s)"
      by (simp add: u)
    then show ?thesis
      by (rule failed)
  next
    case (Inr p)
    obtain r rows where p: "p = (r, rows)"
      by (cases p)
    have "rows = map (\<lambda>w. if w_id w = workout_id then workout_patch e d w else w) (workouts
        s)"
      using Inr p by (simp add: workout_update_rows)
    then have "UpdateWorkout e token workout_id name duration description color s
         = (Inr r,
            s\<lparr>workouts := map (\<lambda>w. if w_id w = workout_id then workout_patch e d w
                else w) (workouts s)\<rparr>)"
      by (simp add: u Inr p)
    then show ?thesis
      by (intro patched [of d r]) (simp_all add: d_def)
  qed
qed

lemma UpdateWorkout_keeps:
  "((name = None \<or> name = Some '''') \<longrightarrow>
      map w_name (workouts (snd (UpdateWorkout e token workout_id name duration description color
          s)))
        = map w_name (workouts s))
   \<and> (duration = None \<longrightarrow>
      map w_duration (workouts (snd (UpdateWorkout e token workout_id name duration description
          color s)))
        = map w_duration (workouts s))
   \<and> ((description = None \<or> description = Some '''') \<longrightarrow>
      map w_description (workouts (snd (UpdateWorkout e token workout_id name duration description
          color s)))
        = map w_description (workouts s))
   \<and> ((color = None \<or> color = Some '''') \<longrightarrow>
      map w_color (workouts (snd (UpdateWorkout e token workout_id name duration description color
          s)))
        = map w_color (workouts s))"
proof (cases rule: UpdateWorkout_outcome [of e token workout_id name duration description color s])
  case (failed error)
  show ?thesis
    unfolding failed by simp
next
  case (patched d r)
  have "wd_name d = None \<Longrightarrow> map w_name (map (\<lambda>w. if w_id w = workout_id then
      workout_patch e d w else w) (workouts s)) = map w_name (workouts s)"
    by (rule map_field_of_patched) (simp add: workout_patch_def)
  moreover have "wd_duration d = None \<Longrightarrow> map w_duration (map (\<lambda>w. if w_id w
      = workout_id then workout_patch e d w else w) (workouts s)) = map w_duration (workouts s)"
    by (rule map_field_of_patched) (simp add: workout_patch_def)
  moreover have "wd_description d = None \<Longrightarrow> map w_description (map (\<lambda>w. if
      w_id w = workout_id then workout_patch e d w else w) (workouts s)) = map w_description
      (workouts s)"
    by (rule map_field_of_patched) (simp add: workout_patch_def)
  moreover have "wd_color d = None \<Longrightarrow> map w_color (map (\<lambda>w. if w_id w =
      workout_id then workout_patch e d w else w) (workouts s)) = map w_color (workouts s)"
    by (rule map_field_of_patched) (simp add: workout_patch_def)
  ultimately show ?thesis
    unfolding patched(5) using patched(1-4) by auto
qed

lemma UpdateWorkout_not_invalid_argument:
  "\<not> is_invalid_argument (fst (UpdateWorkout e token workout_id name duration description
      color s))"
proof (cases rule: UpdateWorkout_outcome [of e token workout_id name duration description color s])
  case (failed error)
  show ?thesis
    unfolding failed by (simp add: catch_P2025_internal_valid)
next
  case (patched d r)
  show ?thesis
    unfolding patched(5) by (simp add: is_invalid_argument_def)
qed

lemma UpdateWorkout_all_absent:
  assumes "authenticateToken e s token = Inr decoded"
    and "workout_id \<in> w_id ` set (workouts s)"
    and "name = None \<or> name = Some ''''"
    and "duration = None"
    and "description = None \<or> description = Some ''''"
    and "color = None \<or> color = Some ''''"
  shows "\<not> isl (fst (UpdateWorkout e token workout_id name duration description color s))"
    and "snd (UpdateWorkout e token workout_id name duration description color s)
           = s\<lparr>workouts := map (\<lambda>w. if w_id w = workout_id then w\<lparr>w_updatedAt
               := now e\<rparr> else w) (workouts s)\<rparr>"
proof -
  obtain old where old: "find (\<lambda>w. w_id w = workout_id) (workouts s) = Some old"
    using find_key_Some [OF assms(2)] by blast
  define d where "d =
    \<lparr>wd_name = (if name \<noteq> None \<and> name \<noteq> Some '''' then name else None),
     wd_duration = (if duration \<noteq> None then duration else None),
     wd_description = (if description \<noteq> None \<and> description \<noteq> Some '''' then
         description else None),
     wd_color = (if color \<noteq> None \<and> color \<noteq> Some '''' then color else
         None)\<rparr>"
  have dn: "d = \<lparr>wd_name = None, wd_duration = None, wd_description = None, wd_color =
      None\<rparr>"
    using assms(3-6) by (auto simp: d_def)
  have p: "\<And>w. workout_patch e \<lparr>wd_name = None, wd_duration = None, wd_description =
      None, wd_color = None\<rparr> w = w\<lparr>w_updatedAt := now e\<rparr>"
    by (simp add: workout_patch_def)
  have u0: "UpdateWorkout e token workout_id name duration description color s =
      (case workout_update e workout_id d (workouts s) of
         Inl error \<Rightarrow> (Inl (catch_P2025_internal ''Workout not found'' error), s)
       | Inr (r, rows) \<Rightarrow>
           (Inr r,
            s\<lparr>workouts := rows\<rparr>))"
    by (simp add: UpdateWorkout_def assms(1) Let_def d_def)
  have r: "workout_update e workout_id d (workouts s)
      = Inr (old\<lparr>w_updatedAt := now e\<rparr>, map (\<lambda>w. if w_id w = workout_id then
          w\<lparr>w_updatedAt := now e\<rparr> else w) (workouts s))"
    unfolding dn workout_update_def old by (simp add: p)
  have u: "UpdateWorkout e token workout_id name duration description color s
      = (Inr (old\<lparr>w_updatedAt := now e\<rparr>),
            s\<lparr>workouts := map (\<lambda>w. if w_id w = workout_id then w\<lparr>w_updatedAt
                := now e\<rparr> else w) (workouts s)\<rparr>)"
    unfolding u0 r by simp
  show "\<not> isl (fst (UpdateWorkout e token workout_id name duration description color s))"
    by (simp add: u)
  show "snd (UpdateWorkout e token workout_id name duration description color s)
           = s\<lparr>workouts := map (\<lambda>w. if w_id w = workout_id then w\<lparr>w_updatedAt
               := now e\<rparr> else w) (workouts s)\<rparr>"
    by (simp add: u)
qed

lemma UpdateRegistration_outcome:
  obtains (failed) error where
      "UpdateRegistration e token registration_id event_id user_id invitee_email start_time
          end_time status s
         = (Inl (catch_P2025_internal ''Registration not found'' error), s)"
  | (patched) d r where
      "gd_eventId d = (if event_id \<noteq> None \<and> event_id \<noteq> Some '''' then event_id
          else None)"
      "gd_userId d = (if user_id \<noteq> None \<and> user_id \<noteq> Some '''' then user_id else
          None)"
      "gd_inviteeEmail d = (if invitee_email \<noteq> None \<and> invitee_email \<noteq> Some ''''
          then invitee_email else None)"
      "gd_startTime d = (if start_time \<noteq> None then Some (convertFromTimestamp start_time)
          else None)"
      "gd_endTime d = (if end_time \<noteq> None then Some (convertFromTimestamp end_time) else
          None)"
      "gd_status d = (if status \<noteq> None \<and> status \<noteq> Some '''' then status else
          None)"
      "UpdateRegistration e token registration_id event_id user_id invitee_email start_time
          end_time status s
         = (Inr (formatRegistration (r, include_trainee (trainees s) (g_userId r))),
            s\<lparr>registrations := map (\<lambda>g. if g_id g = registration_id then
                registration_patch e d g else g) (registrations s)\<rparr>)"
proof (cases "authenticateToken e s token")
  case (Inl err)
  then have "UpdateRegistration e token registration_id event_id user_id invitee_email start_time
      end_time status s
         = (Inl (catch_P2025_internal ''Registration not found'' err), s)"
    by (simp add: UpdateRegistration_def)
  then show ?thesis
    by (rule failed)
next
  case (Inr decoded)
  define d where "d =
    \<lparr>gd_eventId = (if event_id \<noteq> None \<and> event_id \<noteq> Some '''' then
        event_id else None),
     gd_userId = (if user_id \<noteq> None \<and> user_id \<noteq> Some '''' then user_id else
         None),
     gd_inviteeEmail = (if invitee_email \<noteq> None \<and> invitee_email \<noteq> Some '''' then
         invitee_email else None),
     gd_startTime = (if start_time \<noteq> None then Some (convertFromTimestamp start_time) else
         None),
     gd_endTime = (if end_time \<noteq> None then Some (convertFromTimestamp end_time) else None),
     gd_status = (if status \<noteq> None \<and> status \<noteq> Some '''' then status else
         None)\<rparr>"
  have u: "UpdateRegistration e token registration_id event_id user_id invitee_email start_time
      end_time status s =
      (case registration_update e registration_id d (registrations s) of
         Inl error \<Rightarrow> (Inl (catch_P2025_internal ''Registration not found'' error), s)
       | Inr (r, rows) \<Rightarrow>
           (Inr (formatRegistration (r, include_trainee (trainees s) (g_userId r))),
            s\<lparr>registrations := rows\<rparr>))"
    by (simp add: UpdateRegistration_def Inr Let_def d_def)
  show ?thesis
  proof (cases "registration_update e registration_id d (registrations s)")
    case (Inl err)
    then have "UpdateRegistration e token registration_id event_id user_id invitee_email start_time
        end_time status s
         = (Inl (catch_P2025_internal ''Registration not found'' err), s)"
      by (simp add: u)
    then show ?thesis
      by (rule failed)
  next
    case (Inr p)
    obtain r rows where p: "p = (r, rows)"
      by (cases p)
    have "rows = map (\<lambda>g. if g_id g = registration_id then registration_patch e d g else g)
        (registrations s)"
      using Inr p by (simp add: registration_update_rows)
    then have "UpdateRegistration e token registration_id event_id user_id invitee_email start_time
        end_time status s
         = (Inr (formatRegistration (r, include_trainee (trainees s) (g_userId r))),
            s\<lparr>registrations := map (\<lambda>g. if g_id g = registration_id then
                registration_patch e d g else g) (registrations s)\<rparr>)"
      by (simp add: u Inr p)
    then show ?thesis
      by (intro patched [of d r]) (simp_all add: d_def)
  qed
qed

lemma UpdateRegistration_keeps:
  "((event_id = None \<or> event_id = Some '''') \<longrightarrow>
      map g_eventId (registrations (snd (UpdateRegistration e token registration_id event_id
          user_id invitee_email start_time end_time status s)))
        = map g_eventId (registrations s))
   \<and> ((user_id = None \<or> user_id = Some '''') \<longrightarrow>
      map g_userId (registrations (snd (UpdateRegistration e token registration_id event_id user_id
          invitee_email start_time end_time status s)))
        = map g_userId (registrations s))
   \<and> ((invitee_email = None \<or> invitee_email = Some '''') \<longrightarrow>
      map g_inviteeEmail (registrations (snd (UpdateRegistration e token registration_id event_id
          user_id invitee_email start_time end_time status s)))
        = map g_inviteeEmail (registrations s))
   \<and> (start_time = None \<longrightarrow>
      map g_startTime (registrations (snd (UpdateRegistration e token registration_id event_id
          user_id invitee_email start_time end_time status s)))
        = map g_startTime (registrations s))
   \<and> (end_time = None \<longrightarrow>
      map g_endTime (registrations (snd (UpdateRegistration e token registration_id event_id
          user_id invitee_email start_time end_time status s)))
        = map g_endTime (registrations s))
   \<and> ((status = None \<or> status = Some '''') \<longrightarrow>
      map g_status (registrations (snd (UpdateRegistration e token registration_id event_id user_id
          invitee_email start_time end_time status s)))
        = map g_status (registrations s))"
proof (cases rule: UpdateRegistration_outcome [of e token registration_id event_id user_id
    invitee_email start_time end_time status s])
  case (failed error)
  show ?thesis
    unfolding failed by simp
next
  case (patched d r)
  have "gd_eventId d = None \<Longrightarrow> map g_eventId (map (\<lambda>g. if g_id g =
      registration_id then registration_patch e d g else g) (registrations s)) = map g_eventId
      (registrations s)"
    by (rule map_field_of_patched) (simp add: registration_patch_def)
  moreover have "gd_userId d = None \<Longrightarrow> map g_userId (map (\<lambda>g. if g_id g =
      registration_id then registration_patch e d g else g) (registrations s)) = map g_userId
      (registrations s)"
    by (rule map_field_of_patched) (simp add: registration_patch_def)
  moreover have "gd_inviteeEmail d = None \<Longrightarrow> map g_inviteeEmail (map (\<lambda>g. if
      g_id g = registration_id then registration_patch e d g else g) (registrations s)) = map
      g_inviteeEmail (registrations s)"
    by (rule map_field_of_patched) (simp add: registration_patch_def)
  moreover have "gd_startTime d = None \<Longrightarrow> map g_startTime (map (\<lambda>g. if g_id
      g = registration_id then registration_patch e d g else g) (registrations s)) = map
      g_startTime (registrations s)"
    by (rule map_field_of_patched) (simp add: registration_patch_def)
  moreover have "gd_endTime d = None \<Longrightarrow> map g_endTime (map (\<lambda>g. if g_id g =
      registration_id then registration_patch e d g else g) (registrations s)) = map g_endTime
      (registrations s)"
    by (rule map_field_of_patched) (simp add: registration_patch_def)
  moreover have "gd_status d = None \<Longrightarrow> map g_status (map (\<lambda>g. if g_id g =
      registration_id then registration_patch e d g else g) (registrations s)) = map g_status
      (registrations s)"
    by (rule map_field_of_patched) (simp add: registration_patch_def)
  ultimately show ?thesis
    unfolding patched(7) using patched(1-6) by auto
qed

lemma UpdateRegistration_not_invalid_argument:
  "\<not> is_invalid_argument (fst (UpdateRegistration e token registration_id event_id user_id
      invitee_email start_time end_time status s))"
proof (cases rule: UpdateRegistration_outcome [of e token registration_id event_id user_id
    invitee_email start_time end_time status s])
  case (failed error)
  show ?thesis
    unfolding failed by (simp add: catch_P2025_internal_valid)
next
  case (patched d r)
  show ?thesis
    unfolding patched(7) by (simp add: is_invalid_argument_def)
qed

lemma UpdateRegistration_all_absent:
  assumes "authenticateToken e s token = Inr decoded"
    and "registration_id \<in> g_id ` set (registrations s)"
    and "event_id = None \<or> event_id = Some ''''"
    and "user_id = None \<or> user_id = Some ''''"
    and "invitee_email = None \<or> invitee_email = Some ''''"
    and "start_time = None"
    and "end_time = None"
    and "status = None \<or> status = Some ''''"
  shows "\<not> isl (fst (UpdateRegistration e token registration_id event_id user_id invitee_email
      start_time end_time status s))"
    and "snd (UpdateRegistration e token registration_id event_id user_id invitee_email start_time
        end_time status s)
           = s\<lparr>registrations := map (\<lambda>g. if g_id g = registration_id then
               g\<lparr>g_updatedAt := now e\<rparr> else g) (registrations s)\<rparr>"
proof -
  obtain old where old: "find (\<lambda>g. g_id g = registration_id) (registrations s) = Some old"
    using find_key_Some [OF assms(2)] by blast
  define d where "d =
    \<lparr>gd_eventId = (if event_id \<noteq> None \<and> event_id \<noteq> Some '''' then
        event_id else None),
     gd_userId = (if user_id \<noteq> None \<and> user_id \<noteq> Some '''' then user_id else
         None),
     gd_inviteeEmail = (if invitee_email \<noteq> None \<and> invitee_email \<noteq> Some '''' then
         invitee_email else None),
     gd_startTime = (if start_time \<noteq> None then Some (convertFromTimestamp start_time) else
         None),
     gd_endTime = (if end_time \<noteq> None then Some (convertFromTimestamp end_time) else None),
     gd_status = (if status \<noteq> None \<and> status \<noteq> Some '''' then status else
         None)\<rparr>"
  have dn: "d = \<lparr>gd_eventId = None, gd_userId = None, gd_inviteeEmail = None, gd_startTime =
      None, gd_endTime = None, gd_status = None\<rparr>"
    using assms(3-8) by (auto simp: d_def)
  have p: "\<And>g. registration_patch e \<lparr>gd_eventId = None, gd_userId = None,
      gd_inviteeEmail = None, gd_startTime = None, gd_endTime = None, gd_status = None\<rparr> g =
      g\<lparr>g_updatedAt := now e\<rparr>"
    by (simp add: registration_patch_def)
  have u0: "UpdateRegistration e token registration_id event_id user_id invitee_email start_time
      end_time status s =
      (case registration_update e registration_id d (registrations s) of
         Inl error \<Rightarrow> (Inl (catch_P2025_internal ''Registration not found'' error), s)
       | Inr (r, rows) \<Rightarrow>
           (Inr (formatRegistration (r, include_trainee (trainees s) (g_userId r))),
            s\<lparr>registrations := rows\<rparr>))"
    by (simp add: UpdateRegistration_def assms(1) Let_def d_def)
  have r: "registration_update e registration_id d (registrations s)
      = Inr (old\<lparr>g_updatedAt := now e\<rparr>, map (\<lambda>g. if g_id g = registration_id
          then g\<lparr>g_updatedAt := now e\<rparr> else g) (registrations s))"
    unfolding dn registration_update_def old by (simp add: p)
  have u: "UpdateRegistration e token registration_id event_id user_id invitee_email start_time
      end_time status s
      = (Inr (formatRegistration ((old\<lparr>g_updatedAt := now e\<rparr>), include_trainee
          (trainees s) (g_userId (old\<lparr>g_updatedAt := now e\<rparr>)))),
            s\<lparr>registrations := map (\<lambda>g. if g_id g = registration_id then
                g\<lparr>g_updatedAt := now e\<rparr> else g) (registrations s)\<rparr>)"
    unfolding u0 r by simp
  show "\<not> isl (fst (UpdateRegistration e token registration_id event_id user_id invitee_email
      start_time end_time status s))"
    by (simp add: u)
  show "snd (UpdateRegistration e token registration_id event_id user_id invitee_email start_time
      end_time status s)
           = s\<lparr>registrations := map (\<lambda>g. if g_id g = registration_id then
               g\<lparr>g_updatedAt := now e\<rparr> else g) (registrations s)\<rparr>"
    by (simp add: u)
qed

lemma UpdateTrainee_all_absent_imp:
  "authenticateToken e s token = Inr decoded
      \<and> trainee_id \<in> t_id ` set (trainees s)
      \<and> (name = None \<or> name = Some '''')
      \<and> (email = None \<or> email = Some '''')
      \<and> (password = None \<or> password = Some '''')
      \<and> (timezone = None \<or> timezone = Some '''')
      \<longrightarrow> \<not> isl (fst (UpdateTrainee e token trainee_id name email password
          timezone s))
        \<and> snd (UpdateTrainee e token trainee_id name email password timezone s)
            = s\<lparr>trainees := map (\<lambda>t. if t_id t = trainee_id then
                t\<lparr>t_updatedAt := now e\<rparr> else t) (trainees s)\<rparr>"
  by (intro impI, elim conjE, intro conjI)
    (rule UpdateTrainee_all_absent; assumption)+

lemma UpdateWorkout_all_absent_imp:
  "authenticateToken e s token = Inr decoded
      \<and> workout_id \<in> w_id ` set (workouts s)
      \<and> (name = None \<or> name = Some '''')
      \<and> duration = None
      \<and> (description = None \<or> description = Some '''')
      \<and> (color = None \<or> color = Some '''')
      \<longrightarrow> \<not> isl (fst (UpdateWorkout e token workout_id name duration description
          color s))
        \<and> snd (UpdateWorkout e token workout_id name duration description color s)
            = s\<lparr>workouts := map (\<lambda>w. if w_id w = workout_id then
                w\<lparr>w_updatedAt := now e\<rparr> else w) (workouts s)\<rparr>"
  by (intro impI, elim conjE, intro conjI)
    (rule UpdateWorkout_all_absent; assumption)+

lemma UpdateRegistration_all_absent_imp:
  "authenticateToken e s token = Inr decoded
      \<and> registration_id \<in> g_id ` set (registrations s)
      \<and> (event_id = None \<or> event_id = Some '''')
      \<and> (user_id = None \<or> user_id = Some '''')
      \<and> (invitee_email = None \<or> invitee_email = Some '''')
      \<and> start_time = None
      \<and> end_time = None
      \<and> (status = None \<or> status = Some '''')
      \<longrightarrow> \<not> isl (fst (UpdateRegistration e token registration_id event_id
          user_id invitee_email start_time end_time status s))
        \<and> snd (UpdateRegistration e token registration_id event_id user_id invitee_email
            start_time end_time status s)
            = s\<lparr>registrations := map (\<lambda>g. if g_id g = registration_id then
                g\<lparr>g_updatedAt := now e\<rparr> else g) (registrations s)\<rparr>"
  by (intro impI, elim conjE, intro conjI)
    (rule UpdateRegistration_all_absent; assumption)+

text \<open>
  Claim C8. In \<^verbatim>\<open>UpdateTrainee\<close>, \<^verbatim>\<open>UpdateWorkout\<close>
      and \<^verbatim>\<open>UpdateRegistration\<close> an
  optional field that is absent (or, for a string, empty) leaves the stored values of that
  field as they are, and is never answered with \<^verbatim>\<open>INVALID_ARGUMENT\<close>; when
      the token
  authenticates, the entity exists and every optional field is absent or empty, the call
  answers and the only change to the state is the \<^verbatim>\<open>updatedAt\<close> of that
      entity.
\<close>

theorem partial_update_sparse:
  "((name = None \<or> name = Some '''') \<longrightarrow>
      map t_name (trainees (snd (UpdateTrainee e token trainee_id name email password timezone s)))
        = map t_name (trainees s))
   \<and> ((email = None \<or> email = Some '''') \<longrightarrow>
      map t_email (trainees (snd (UpdateTrainee e token trainee_id name email password timezone s)))
        = map t_email (trainees s))
   \<and> ((password = None \<or> password = Some '''') \<longrightarrow>
      map t_password (trainees (snd (UpdateTrainee e token trainee_id name email password timezone
          s)))
        = map t_password (trainees s))
   \<and> ((timezone = None \<or> timezone = Some '''') \<longrightarrow>
      map t_timezone (trainees (snd (UpdateTrainee e token trainee_id name email password timezone
          s)))
        = map t_timezone (trainees s))
   \<and> \<not> is_invalid_argument (fst (UpdateTrainee e token trainee_id name email password
       timezone s))
   \<and> (authenticateToken e s token = Inr decoded
      \<and> trainee_id \<in> t_id ` set (trainees s)
      \<and> (name = None \<or> name = Some '''')
      \<and> (email = None \<or> email = Some '''')
      \<and> (password = None \<or> password = Some '''')
      \<and> (timezone = None \<or> timezone = Some '''')
      \<longrightarrow> \<not> isl (fst (UpdateTrainee e token trainee_id name email password
          timezone s))
        \<and> snd (UpdateTrainee e token trainee_id name email password timezone s)
            = s\<lparr>trainees := map (\<lambda>t. if t_id t = trainee_id then
                t\<lparr>t_updatedAt := now e\<rparr> else t) (trainees s)\<rparr>)
   \<and> ((name' = None \<or> name' = Some '''') \<longrightarrow>
      map w_name (workouts (snd (UpdateWorkout e token workout_id name' duration description color
          s)))
        = map w_name (workouts s))
   \<and> (duration = None \<longrightarrow>
      map w_duration (workouts (snd (UpdateWorkout e token workout_id name' duration description
          color s)))
        = map w_duration (workouts s))
   \<and> ((description = None \<or> description = Some '''') \<longrightarrow>
      map w_description (workouts (snd (UpdateWorkout e token workout_id name' duration description
          color s)))
        = map w_description (workouts s))
   \<and> ((color = None \<or> color = Some '''') \<longrightarrow>
      map w_color (workouts (snd (UpdateWorkout e token workout_id name' duration description color
          s)))
        = map w_color (workouts s))
   \<and> \<not> is_invalid_argument (fst (UpdateWorkout e token workout_id name' duration
       description color s))
   \<and> (authenticateToken e s token = Inr decoded
      \<and> workout_id \<in> w_id ` set (workouts s)
      \<and> (name' = None \<or> name' = Some '''')
      \<and> duration = None
      \<and> (description = None \<or> description = Some '''')
      \<and> (color = None \<or> color = Some '''')
      \<longrightarrow> \<not> isl (fst (UpdateWorkout e token workout_id name' duration
          description color s))
        \<and> snd (UpdateWorkout e token workout_id name' duration description color s)
            = s\<lparr>workouts := map (\<lambda>w. if w_id w = workout_id then
                w\<lparr>w_updatedAt := now e\<rparr> else w) (workouts s)\<rparr>)
   \<and> ((event_id = None \<or> event_id = Some '''') \<longrightarrow>
      map g_eventId (registrations (snd (UpdateRegistration e token registration_id event_id
          user_id invitee_email start_time end_time status s)))
        = map g_eventId (registrations s))
   \<and> ((user_id = None \<or> user_id = Some '''') \<longrightarrow>
      map g_userId (registrations (snd (UpdateRegistration e token registration_id event_id user_id
          invitee_email start_time end_time status s)))
        = map g_userId (registrations s))
   \<and> ((invitee_email = None \<or> invitee_email = Some '''') \<longrightarrow>
      map g_inviteeEmail (registrations (snd (UpdateRegistration e token registration_id event_id
          user_id invitee_email start_time end_time status s)))
        = map g_inviteeEmail (registrations s))
   \<and> (start_time = None \<longrightarrow>
      map g_startTime (registrations (snd (UpdateRegistration e token registration_id event_id
          user_id invitee_email start_time end_time status s)))
        = map g_startTime (registrations s))
   \<and> (end_time = None \<longrightarrow>
      map g_endTime (registrations (snd (UpdateRegistration e token registration_id event_id
          user_id invitee_email start_time end_time status s)))
        = map g_endTime (registrations s))
   \<and> ((status = None \<or> status = Some '''') \<longrightarrow>
      map g_status (registrations (snd (UpdateRegistration e token registration_id event_id user_id
          invitee_email start_time end_time status s)))
        = map g_status (registrations s))
   \<and> \<not> is_invalid_argument (fst (UpdateRegistration e token registration_id event_id
       user_id invitee_email start_time end_time status s))
   \<and> (authenticateToken e s token = Inr decoded
      \<and> registration_id \<in> g_id ` set (registrations s)
      \<and> (event_id = None \<or> event_id = Some '''')
      \<and> (user_id = None \<or> user_id = Some '''')
      \<and> (invitee_email = None \<or> invitee_email = Some '''')
      \<and> start_time = None
      \<and> end_time = None
      \<and> (status = None \<or> status = Some '''')
      \<longrightarrow> \<not> isl (fst (UpdateRegistration e token registration_id event_id
          user_id invitee_email start_time end_time status s))
        \<and> snd (UpdateRegistration e token registration_id event_id user_id invitee_email
            start_time end_time status s)
            = s\<lparr>registrations := map (\<lambda>g. if g_id g = registration_id then
                g\<lparr>g_updatedAt := now e\<rparr> else g) (registrations s)\<rparr>)"
  by (intro conjI
      UpdateTrainee_keeps [THEN conjunct1]
      UpdateTrainee_keeps [THEN conjunct2, THEN conjunct1]
      UpdateTrainee_keeps [THEN conjunct2, THEN conjunct2, THEN conjunct1]
      UpdateTrainee_keeps [THEN conjunct2, THEN conjunct2, THEN conjunct2]
      UpdateTrainee_not_invalid_argument
      UpdateTrainee_all_absent_imp
      UpdateWorkout_keeps [THEN conjunct1]
      UpdateWorkout_keeps [THEN conjunct2, THEN conjunct1]
      UpdateWorkout_keeps [THEN conjunct2, THEN conjunct2, THEN conjunct1]
      UpdateWorkout_keeps [THEN conjunct2, THEN conjunct2, THEN conjunct2]
      UpdateWorkout_not_invalid_argument
      UpdateWorkout_all_absent_imp
      UpdateRegistration_keeps [THEN conjunct1]
      UpdateRegistration_keeps [THEN conjunct2, THEN conjunct1]
      UpdateRegistration_keeps [THEN conjunct2, THEN conjunct2, THEN conjunct1]
      UpdateRegistration_keeps [THEN conjunct2, THEN conjunct2, THEN conjunct2, THEN conjunct1]
      UpdateRegistration_keeps [THEN conjunct2, THEN conjunct2, THEN conjunct2, THEN conjunct2,
          THEN conjunct1]
      UpdateRegistration_keeps [THEN conjunct2, THEN conjunct2, THEN conjunct2, THEN conjunct2,
          THEN conjunct2]
      UpdateRegistration_not_invalid_argument
      UpdateRegistration_all_absent_imp)

text \<open>
  On the small server: \<^verbatim>\<open>UpdateTrainee\<close> with an empty email and nothing
      else,
  \<^verbatim>\<open>UpdateWorkout\<close> and \<^verbatim>\<open>UpdateRegistration\<close> with
      no optional field at all.
\<close>

theorem partial_update_sparse_witness:
  "authenticateToken env0 server0 ''tok'' = Inr \<lparr>u_traineeId = ''u1'', u_email =
      ''a@x.com''\<rparr>
   \<and> ''u1'' \<in> t_id ` set (trainees server0)
   \<and> \<not> isl (fst (UpdateTrainee env0 ''tok'' ''u1'' None (Some '''') None None server0))
   \<and> snd (UpdateTrainee env0 ''tok'' ''u1'' None (Some '''') None None server0)
       = server0\<lparr>trainees := [alice\<lparr>t_updatedAt := 5000\<rparr>, bob]\<rparr>
   \<and> ''w1'' \<in> w_id ` set (workouts server0)
   \<and> \<not> isl (fst (UpdateWorkout env0 ''tok'' ''w1'' None None None None server0))
   \<and> snd (UpdateWorkout env0 ''tok'' ''w1'' None None None None server0)
       = server0\<lparr>workouts := [hiit\<lparr>w_updatedAt := 5000\<rparr>]\<rparr>
   \<and> ''g1'' \<in> g_id ` set (registrations server0)
   \<and> \<not> isl (fst (UpdateRegistration env0 ''tok'' ''g1'' None None None None None None
       server0))
   \<and> snd (UpdateRegistration env0 ''tok'' ''g1'' None None None None None None server0)
       = server0\<lparr>registrations := [booking\<lparr>g_updatedAt := 5000\<rparr>]\<rparr>"
proof -
  have a: "authenticateToken env0 server0 ''tok''
             = Inr \<lparr>u_traineeId = ''u1'', u_email = ''a@x.com''\<rparr>"
    by (simp add: authenticateToken_def env0_def server0_def)
  have i: "''u1'' \<in> t_id ` set (trainees server0)" "''w1'' \<in> w_id ` set (workouts server0)"
    "''g1'' \<in> g_id ` set (registrations server0)"
    by (simp_all add: server0_def alice_def hiit_def booking_def)
  have m: "map (\<lambda>t. if t_id t = ''u1'' then t\<lparr>t_updatedAt := now env0\<rparr> else
      t) (trainees server0)
             = [alice\<lparr>t_updatedAt := 5000\<rparr>, bob]"
    "map (\<lambda>w. if w_id w = ''w1'' then w\<lparr>w_updatedAt := now env0\<rparr> else w)
        (workouts server0)
             = [hiit\<lparr>w_updatedAt := 5000\<rparr>]"
    "map (\<lambda>g. if g_id g = ''g1'' then g\<lparr>g_updatedAt := now env0\<rparr> else g)
         (registrations server0)
             = [booking\<lparr>g_updatedAt := 5000\<rparr>]"
    by (simp_all add: server0_def alice_def bob_def hiit_def booking_def env0_def)
  from partial_update_sparse
    [where e = env0 and s = server0 and token = "''tok''"
       and decoded = "\<lparr>u_traineeId = ''u1'', u_email = ''a@x.com''\<rparr>"
       and trainee_id = "''u1''" and name = None and email = "Some ''''" and password = None
       and timezone = None and workout_id = "''w1''" and name' = None and duration = None
       and description = None and color = None and registration_id = "''g1''"
       and event_id = None and user_id = None and invitee_email = None and start_time = None
       and end_time = None and status = None]
  show ?thesis
    by (simp add: a i m)
qed

subsection \<open>Required fields\<close>

lemma catch_code_valid:
  "\<not> is_invalid_argument (Inl (GrpcError UNAUTHENTICATED m))"
  "\<not> is_invalid_argument (Inl (GrpcError NOT_FOUND m))"
  "\<not> is_invalid_argument (Inl (GrpcError ALREADY_EXISTS m))"
  "\<not> is_invalid_argument (Inl internal)"
  "\<not> is_invalid_argument (Inl (catch_code (PrismaError c)))"
  "\<not> is_invalid_argument (Inl (catch_code JsError))"
  "\<not> is_invalid_argument (Inr r)"
  "is_invalid_argument (Inl (GrpcError INVALID_ARGUMENT m))"
  by (simp_all add: is_invalid_argument_def catch_code_def internal_def)

text \<open>The error of \<^verbatim>\<open>authenticateToken\<close> always has the status \<^verbatim>\<open>UNAUTHENTICATED\<close>.\<close>

lemma authenticateToken_Inl:
  "authenticateToken e s token = Inl error \<Longrightarrow> \<exists>m. error = GrpcError UNAUTHENTICATED m"
  by (auto simp: authenticateToken_def split: if_splits option.splits)

lemma CreateSession_invalid:
  "is_invalid_argument (fst (CreateSession e email password s))
     = (email = '''' \<or> password = '''')"
  by (auto simp: CreateSession_def catch_code_valid split: option.splits)

lemma CreateTrainee_invalid:
  "is_invalid_argument (fst (CreateTrainee e name email password timezone s))
     = (name = '''' \<or> email = '''' \<or> password = '''')"
  by (auto simp: CreateTrainee_def catch_code_valid split: option.splits sum.splits)

lemma workout_create_error:
  "workout_create e name duration description color rows = Inl error
   \<Longrightarrow> error = PrismaError ''P2002''"
  by (auto simp: workout_create_def Let_def split: if_splits)

lemma routine_create_error:
  "routine_create e userId availability rows = Inl error \<Longrightarrow> error = PrismaError ''P2002''"
  by (auto simp: routine_create_def Let_def split: if_splits)

lemma registration_create_error:
  "registration_create e eventId userId inviteeEmail startTime endTime status rows = Inl error
   \<Longrightarrow> error = PrismaError ''P2002'' \<or> error = JsError"
  by (auto simp: registration_create_def Let_def split: if_splits option.splits date.splits)

lemma CreateWorkout_invalid:
  "is_invalid_argument (fst (CreateWorkout e token name duration description color s))
     = (\<not> isl (authenticateToken e s token) \<and> (name = '''' \<or> duration = 0))"
proof (cases "authenticateToken e s token")
  case (Inl error)
  then show ?thesis
    using authenticateToken_Inl [OF Inl]
    by (auto simp: CreateWorkout_def catch_code_def catch_code_valid)
next
  case (Inr decoded)
  show ?thesis
  proof (cases "workout_create e name duration description color (workouts s)")
    case (Inl error)
    then show ?thesis
      using workout_create_error [OF Inl]
      by (auto simp: CreateWorkout_def Inr catch_code_valid)
  next
    case r: (Inr p)
    then show ?thesis
      by (cases p) (auto simp: CreateWorkout_def Inr catch_code_valid)
  qed
qed

lemma CreateRoutine_invalid:
  "is_invalid_argument (fst (CreateRoutine e token user_id availability s))
     = (\<not> isl (authenticateToken e s token) \<and> (user_id = '''' \<or> availability = []))"
proof (cases "authenticateToken e s token")
  case (Inl error)
  then show ?thesis
    using authenticateToken_Inl [OF Inl]
    by (auto simp: CreateRoutine_def catch_code_def catch_code_valid)
next
  case (Inr decoded)
  show ?thesis
  proof (cases "routine_create e user_id (JSON_stringify availability) (routines s)")
    case (Inl error)
    then show ?thesis
      using routine_create_error [OF Inl]
      by (auto simp: CreateRoutine_def Inr catch_code_valid split: option.splits)
  next
    case r: (Inr p)
    then show ?thesis
      by (cases p) (auto simp: CreateRoutine_def Inr catch_code_valid split: option.splits)
  qed
qed

lemma UpdateTraineeRoutine_invalid:
  "is_invalid_argument (fst (UpdateTraineeRoutine e token trainee_id availability s))
     = (\<not> isl (authenticateToken e s token) \<and> availability = [])"
  by (cases "authenticateToken e s token")
    (auto simp: UpdateTraineeRoutine_def catch_code_valid
      split: prod.splits option.splits)

lemma CreateRegistration_invalid:
  "is_invalid_argument
     (fst (CreateRegistration e token event_id user_id invitee_email start_time end_time status s))
     = (\<not> isl (authenticateToken e s token)
        \<and> (event_id = '''' \<or> user_id = '''' \<or> invitee_email = '''' \<or> start_time = None))"
proof (cases "authenticateToken e s token")
  case (Inl error)
  then show ?thesis
    using authenticateToken_Inl [OF Inl]
    by (auto simp: CreateRegistration_def catch_code_def catch_code_valid)
next
  case (Inr decoded)
  show ?thesis
  proof (cases "registration_create e event_id user_id invitee_email
                  (convertFromTimestamp start_time)
                  (if end_time \<noteq> None then convertFromTimestamp end_time else None)
                  (if status \<noteq> '''' then status else ''scheduled'') (registrations s)")
    case (Inl error)
    then show ?thesis
      using registration_create_error [OF Inl]
      by (auto simp: CreateRegistration_def Inr catch_code_valid split: option.splits)
  next
    case r: (Inr p)
    then show ?thesis
      by (cases p) (auto simp: CreateRegistration_def Inr catch_code_valid split: option.splits)
  qed
qed

lemma missing_field_messages:
  "email = '''' \<or> password = '''' \<Longrightarrow>
     fst (CreateSession e email password s)
       = Inl (GrpcError INVALID_ARGUMENT ''Email and password are required'')"
  "name = '''' \<or> email = '''' \<or> password = '''' \<Longrightarrow>
     fst (CreateTrainee e name email password timezone s)
       = Inl (GrpcError INVALID_ARGUMENT ''Name, email, and password are required'')"
  "authenticateToken e s token = Inr decoded \<Longrightarrow> name = '''' \<or> duration = 0 \<Longrightarrow>
     fst (CreateWorkout e token name duration description color s)
       = Inl (GrpcError INVALID_ARGUMENT ''Name and duration are required'')"
  "authenticateToken e s token = Inr decoded \<Longrightarrow> user_id = '''' \<or> availability = [] \<Longrightarrow>
     fst (CreateRoutine e token user_id availability s)
       = Inl (GrpcError INVALID_ARGUMENT ''user_id and availability are required'')"
  "authenticateToken e s token = Inr decoded \<Longrightarrow> availability = [] \<Longrightarrow>
     fst (UpdateTraineeRoutine e token trainee_id availability s)
       = Inl (GrpcError INVALID_ARGUMENT ''availability is required'')"
  "authenticateToken e s token = Inr decoded \<Longrightarrow>
   event_id = '''' \<or> user_id = '''' \<or> invitee_email = '''' \<or> start_time = None \<Longrightarrow>
     fst (CreateRegistration e token event_id user_id invitee_email start_time end_time status s)
       = Inl (GrpcError INVALID_ARGUMENT
                ''event_id, user_id, invitee_email, and start_time are required'')"
  by (simp_all add: CreateSession_def CreateTrainee_def CreateWorkout_def CreateRoutine_def
      UpdateTraineeRoutine_def CreateRegistration_def)

text \<open>
  Claim C9, as amended. A call fails with \<^verbatim>\<open>INVALID_ARGUMENT\<close> exactly when a required field
  is missing and, for the operations that take a token, the token authenticates (the token is
  checked first); the message then lists the required fields of the operation. The required
  fields are: email and password for \<^verbatim>\<open>CreateSession\<close>; name, email and password for
  \<^verbatim>\<open>CreateTrainee\<close>; name and a duration other than 0 for \<^verbatim>\<open>CreateWorkout\<close>; the user
  identifier and a non-empty availability for \<^verbatim>\<open>CreateRoutine\<close>; a non-empty availability
  for \<^verbatim>\<open>UpdateTraineeRoutine\<close>; event identifier, user identifier, invitee email and start
  time for \<^verbatim>\<open>CreateRegistration\<close>.
\<close>

theorem required_fields:
  "is_invalid_argument (fst (CreateSession e email password s))
     = (email = '''' \<or> password = '''')
   \<and> (email = '''' \<or> password = '''' \<longrightarrow>
        fst (CreateSession e email password s)
          = Inl (GrpcError INVALID_ARGUMENT ''Email and password are required''))
   \<and> is_invalid_argument (fst (CreateTrainee e name email' password' timezone s))
       = (name = '''' \<or> email' = '''' \<or> password' = '''')
   \<and> (name = '''' \<or> email' = '''' \<or> password' = '''' \<longrightarrow>
        fst (CreateTrainee e name email' password' timezone s)
          = Inl (GrpcError INVALID_ARGUMENT ''Name, email, and password are required''))
   \<and> is_invalid_argument (fst (CreateWorkout e token name' duration description color s))
       = (\<not> isl (authenticateToken e s token) \<and> (name' = '''' \<or> duration = 0))
   \<and> (\<not> isl (authenticateToken e s token) \<and> (name' = '''' \<or> duration = 0) \<longrightarrow>
        fst (CreateWorkout e token name' duration description color s)
          = Inl (GrpcError INVALID_ARGUMENT ''Name and duration are required''))
   \<and> is_invalid_argument (fst (CreateRoutine e token user_id availability s))
       = (\<not> isl (authenticateToken e s token) \<and> (user_id = '''' \<or> availability = []))
   \<and> (\<not> isl (authenticateToken e s token) \<and> (user_id = '''' \<or> availability = []) \<longrightarrow>
        fst (CreateRoutine e token user_id availability s)
          = Inl (GrpcError INVALID_ARGUMENT ''user_id and availability are required''))
   \<and> is_invalid_argument (fst (UpdateTraineeRoutine e token trainee_id availability' s))
       = (\<not> isl (authenticateToken e s token) \<and> availability' = [])
   \<and> (\<not> isl (authenticateToken e s token) \<and> availability' = [] \<longrightarrow>
        fst (UpdateTraineeRoutine e token trainee_id availability' s)
          = Inl (GrpcError INVALID_ARGUMENT ''availability is required''))
   \<and> is_invalid_argument
         (fst (CreateRegistration e token event_id user_id' invitee_email start_time end_time
                 status s))
       = (\<not> isl (authenticateToken e s token)
          \<and> (event_id = '''' \<or> user_id' = '''' \<or> invitee_email = '''' \<or> start_time = None))
   \<and> (\<not> isl (authenticateToken e s token)
        \<and> (event_id = '''' \<or> user_id' = '''' \<or> invitee_email = '''' \<or> start_time = None) \<longrightarrow>
        fst (CreateRegistration e token event_id user_id' invitee_email start_time end_time
               status s)
          = Inl (GrpcError INVALID_ARGUMENT
                   ''event_id, user_id, invitee_email, and start_time are required''))"
proof -
  have m: "\<And>P Q. (\<not> isl (authenticateToken e s token) \<and> P \<longrightarrow> Q)
             = (\<forall>decoded. authenticateToken e s token = Inr decoded \<longrightarrow> P \<longrightarrow> Q)"
    by (cases "authenticateToken e s token") auto
  show ?thesis
    unfolding m
    by (intro conjI allI impI CreateSession_invalid CreateTrainee_invalid CreateWorkout_invalid
        CreateRoutine_invalid UpdateTraineeRoutine_invalid CreateRegistration_invalid
        missing_field_messages)
qed

text \<open>
  Claim C9, as stated, fails. \<^verbatim>\<open>CreateRoutine\<close> with a non-empty availability and no user
  identifier is answered with \<^verbatim>\<open>INVALID_ARGUMENT\<close>: the user identifier is required too. And
  \<^verbatim>\<open>CreateWorkout\<close> without name, duration and token is answered with \<^verbatim>\<open>UNAUTHENTICATED\<close>.
\<close>

theorem required_fields_counterexample:
  "[sunday] \<noteq> []
   \<and> fst (CreateRoutine env0 ''tok'' '''' [sunday] server0)
       = Inl (GrpcError INVALID_ARGUMENT ''user_id and availability are required'')
   \<and> fst (CreateWorkout env0 '''' '''' 0 '''' '''' server0)
       = Inl (GrpcError UNAUTHENTICATED ''Authorization token missing'')"
  by (simp add: CreateRoutine_def CreateWorkout_def authenticateToken_def catch_code_def
      env0_def server0_def)

text \<open>On the small server, one call of each operation with a required field missing.\<close>

theorem required_fields_witness:
  "\<not> isl (authenticateToken env0 server0 ''tok'')
   \<and> fst (CreateSession env0 '''' ''pw'' server0)
       = Inl (GrpcError INVALID_ARGUMENT ''Email and password are required'')
   \<and> fst (CreateTrainee env0 ''C'' '''' ''pw3'' '''' server0)
       = Inl (GrpcError INVALID_ARGUMENT ''Name, email, and password are required'')
   \<and> fst (CreateWorkout env0 ''tok'' ''Yoga'' 0 '''' '''' server0)
       = Inl (GrpcError INVALID_ARGUMENT ''Name and duration are required'')
   \<and> fst (CreateRoutine env0 ''tok'' ''u1'' [] server0)
       = Inl (GrpcError INVALID_ARGUMENT ''user_id and availability are required'')
   \<and> fst (UpdateTraineeRoutine env0 ''tok'' ''u1'' [] server0)
       = Inl (GrpcError INVALID_ARGUMENT ''availability is required'')
   \<and> fst (CreateRegistration env0 ''tok'' ''event-9'' ''u1'' ''a@x.com'' None None '''' server0)
       = Inl (GrpcError INVALID_ARGUMENT
                ''event_id, user_id, invitee_email, and start_time are required'')
   \<and> \<not> is_invalid_argument (fst (CreateWorkout env0 ''tok'' ''Yoga'' 60 '''' '''' server0))"
proof -
  have a: "\<not> isl (authenticateToken env0 server0 ''tok'')"
    by (simp add: authenticateToken_def env0_def server0_def)
  from required_fields
    [where e = env0 and s = server0 and token = "''tok''" and email = "''''"
       and password = "''pw''" and name = "''C''" and email' = "''''" and password' = "''pw3''"
       and timezone = "''''" and name' = "''Yoga''" and duration = 0 and description = "''''"
       and color = "''''" and user_id = "''u1''" and availability = "[]"
       and trainee_id = "''u1''" and availability' = "[]" and event_id = "''event-9''"
       and user_id' = "''u1''" and invitee_email = "''a@x.com''" and start_time = None
       and end_time = None and status = "''''"]
    required_fields [where e = env0 and s = server0 and token = "''tok''"
       and name' = "''Yoga''" and duration = 60 and description = "''''" and color = "''''"]
  show ?thesis
    by (simp add: a)
qed

subsection \<open>Routines of a trainee\<close>

lemma map_no_hit:
  "filter hit rows = [] \<Longrightarrow> map (\<lambda>r. if hit r then patch r else r) rows = rows"
  by (induction rows) (auto split: if_splits)

lemma find_map_patched:
  assumes "\<And>r. hit (patch r) = hit r"
  shows "find hit (map (\<lambda>r. if hit r then patch r else r) rows) = map_option patch (find hit rows)"
  by (induction rows) (simp_all add: assms)

lemma filter_no_hit:
  "filter hit rows = [] \<Longrightarrow> filter (\<lambda>r. \<not> hit r) rows = rows"
  by (induction rows) (auto split: if_splits)

lemma find_hit_Some:
  "find hit rows = Some r \<Longrightarrow> filter hit rows \<noteq> []"
  by (induction rows) (auto split: if_splits)

lemma UpdateTraineeRoutine_routines:
  assumes "authenticateToken e s token = Inr decoded" and "availability \<noteq> []"
  shows "routines (snd (UpdateTraineeRoutine e token trainee_id availability s))
           = map (\<lambda>r. if r_userId r = trainee_id
                      then r\<lparr>r_availability := JSON_stringify availability,
                             r_updatedAt := now e\<rparr>
                      else r) (routines s)"
proof (cases "filter (\<lambda>r. r_userId r = trainee_id) (routines s) = []")
  case True
  then show ?thesis
    using assms by (simp add: UpdateTraineeRoutine_def routine_updateMany_def map_no_hit)
next
  case False
  then show ?thesis
    using assms
    by (simp add: UpdateTraineeRoutine_def routine_updateMany_def split: option.splits)
qed

lemma UpdateTraineeRoutine_response:
  assumes "authenticateToken e s token = Inr decoded" and "availability \<noteq> []"
    and "find (\<lambda>r. r_userId r = trainee_id) (routines s) = Some first"
  shows "fst (UpdateTraineeRoutine e token trainee_id availability s)
           = Inr (formatRoutine
                    (first\<lparr>r_availability := JSON_stringify availability,
                           r_updatedAt := now e\<rparr>,
                     include_trainee (trainees s) trainee_id))"
proof -
  have n: "filter (\<lambda>r. r_userId r = trainee_id) (routines s) \<noteq> []"
    using assms(3) by (rule find_hit_Some)
  have u: "r_userId first = trainee_id"
    using assms(3) by (auto simp: find_Some_iff)
  have f: "find (\<lambda>r. r_userId r = trainee_id)
             (map (\<lambda>r. if r_userId r = trainee_id
                        then r\<lparr>r_availability := JSON_stringify availability,
                               r_updatedAt := now e\<rparr>
                        else r) (routines s))
           = Some (first\<lparr>r_availability := JSON_stringify availability,
                          r_updatedAt := now e\<rparr>)"
    unfolding find_map_patched [of "\<lambda>r. r_userId r = trainee_id"
        "\<lambda>r. r\<lparr>r_availability := JSON_stringify availability, r_updatedAt := now e\<rparr>", simplified]
      assms(3)
    by simp
  show ?thesis
    unfolding UpdateTraineeRoutine_def routine_updateMany_def assms(1)
    using assms(2) n by (simp add: f u)
qed

lemma DeleteTraineeRoutine_routines:
  assumes "authenticateToken e s token = Inr decoded"
  shows "routines (snd (DeleteTraineeRoutine e token trainee_id s))
           = filter (\<lambda>r. r_userId r \<noteq> trainee_id) (routines s)"
proof (cases "filter (\<lambda>r. r_userId r = trainee_id) (routines s) = []")
  case True
  then show ?thesis
    using assms by (simp add: DeleteTraineeRoutine_def routine_deleteMany_def filter_no_hit)
next
  case False
  then show ?thesis
    using assms by (simp add: DeleteTraineeRoutine_def routine_deleteMany_def)
qed

lemma DeleteTraineeRoutine_response:
  assumes "authenticateToken e s token = Inr decoded"
    and "trainee_id \<in> r_userId ` set (routines s)"
  shows "fst (DeleteTraineeRoutine e token trainee_id s) = Inr True"
proof -
  have "filter (\<lambda>r. r_userId r = trainee_id) (routines s) \<noteq> []"
    using assms(2) by (auto simp: filter_empty_conv)
  then show ?thesis
    using assms(1) by (simp add: DeleteTraineeRoutine_def routine_deleteMany_def)
qed

text \<open>
  Claim C2, as amended. With a token that authenticates (and, to update, a non-empty
  availability), \<^verbatim>\<open>UpdateTraineeRoutine\<close> gives the new availability to every routine of
  the trainee and answers with the first of them, and \<^verbatim>\<open>DeleteTraineeRoutine\<close> deletes
  every routine of the trainee; the routines of other trainees are left as they are.
\<close>

theorem routines_of_trainee_all_match:
  "(authenticateToken e s token = Inr decoded \<and> availability \<noteq> [] \<longrightarrow>
      routines (snd (UpdateTraineeRoutine e token trainee_id availability s))
        = map (\<lambda>r. if r_userId r = trainee_id
                   then r\<lparr>r_availability := JSON_stringify availability,
                          r_updatedAt := now e\<rparr>
                   else r) (routines s))
   \<and> (authenticateToken e s token = Inr decoded \<and> availability \<noteq> []
       \<and> find (\<lambda>r. r_userId r = trainee_id) (routines s) = Some first \<longrightarrow>
      fst (UpdateTraineeRoutine e token trainee_id availability s)
        = Inr (formatRoutine
                 (first\<lparr>r_availability := JSON_stringify availability,
                        r_updatedAt := now e\<rparr>,
                  include_trainee (trainees s) trainee_id)))
   \<and> (authenticateToken e s token = Inr decoded \<longrightarrow>
      routines (snd (DeleteTraineeRoutine e token trainee_id s))
        = filter (\<lambda>r. r_userId r \<noteq> trainee_id) (routines s))
   \<and> (authenticateToken e s token = Inr decoded
       \<and> trainee_id \<in> r_userId ` set (routines s) \<longrightarrow>
      fst (DeleteTraineeRoutine e token trainee_id s) = Inr True)"
  using UpdateTraineeRoutine_routines [of e s token decoded availability trainee_id]
    UpdateTraineeRoutine_response [of e s token decoded availability trainee_id first]
    DeleteTraineeRoutine_routines [of e s token decoded trainee_id]
    DeleteTraineeRoutine_response [of e s token decoded trainee_id]
  by (intro conjI impI) (elim conjE, assumption | simp)+

text \<open>
  Claim C2, as stated, fails. The first trainee of the small server has two routines.
  \<^verbatim>\<open>UpdateTraineeRoutine\<close> changes the availability of both, the second one from Friday to
  Sunday, and \<^verbatim>\<open>DeleteTraineeRoutine\<close> deletes both.
\<close>

theorem routines_of_trainee_first_match_counterexample:
  "map r_userId (routines server0) = [''u1'', ''u1'', ''u2'']
   \<and> map r_availability (routines server0) = [JSON [monday], JSON [friday], JSON [friday]]
   \<and> map r_availability
         (routines (snd (UpdateTraineeRoutine env0 ''tok'' ''u1'' [sunday] server0)))
       = [JSON [sunday], JSON [sunday], JSON [friday]]
   \<and> JSON [friday] \<noteq> JSON [sunday]
   \<and> map r_id (routines (snd (DeleteTraineeRoutine env0 ''tok'' ''u1'' server0))) = [''r3'']"
  by (simp add: UpdateTraineeRoutine_def DeleteTraineeRoutine_def authenticateToken_def
      routine_updateMany_def routine_deleteMany_def JSON_stringify_def
      env0_def server0_def routine1_def routine2_def routine3_def friday_def sunday_def)

text \<open>The two routines of the first trainee, updated and deleted together.\<close>

theorem routines_of_trainee_all_match_witness:
  "authenticateToken env0 server0 ''tok'' = Inr \<lparr>u_traineeId = ''u1'', u_email = ''a@x.com''\<rparr>
   \<and> [sunday] \<noteq> []
   \<and> find (\<lambda>r. r_userId r = ''u1'') (routines server0) = Some routine1
   \<and> ''u1'' \<in> r_userId ` set (routines server0)
   \<and> routines (snd (UpdateTraineeRoutine env0 ''tok'' ''u1'' [sunday] server0))
       = [routine1\<lparr>r_availability := JSON [sunday], r_updatedAt := 5000\<rparr>,
          routine2\<lparr>r_availability := JSON [sunday], r_updatedAt := 5000\<rparr>,
          routine3]
   \<and> fst (UpdateTraineeRoutine env0 ''tok'' ''u1'' [sunday] server0)
       = Inr (formatRoutine
                (routine1\<lparr>r_availability := JSON [sunday], r_updatedAt := 5000\<rparr>,
                 include_trainee [alice, bob] ''u1''))
   \<and> routines (snd (DeleteTraineeRoutine env0 ''tok'' ''u1'' server0)) = [routine3]
   \<and> fst (DeleteTraineeRoutine env0 ''tok'' ''u1'' server0) = Inr True"
proof -
  have a: "authenticateToken env0 server0 ''tok''
             = Inr \<lparr>u_traineeId = ''u1'', u_email = ''a@x.com''\<rparr>"
    by (simp add: authenticateToken_def env0_def server0_def)
  have f: "find (\<lambda>r. r_userId r = ''u1'') (routines server0) = Some routine1"
    by (simp add: server0_def routine1_def)
  have i: "''u1'' \<in> r_userId ` set (routines server0)"
    by (simp add: server0_def routine1_def)
  have m: "map (\<lambda>r. if r_userId r = ''u1''
                     then r\<lparr>r_availability := JSON_stringify [sunday], r_updatedAt := now env0\<rparr>
                     else r) (routines server0)
           = [routine1\<lparr>r_availability := JSON [sunday], r_updatedAt := 5000\<rparr>,
              routine2\<lparr>r_availability := JSON [sunday], r_updatedAt := 5000\<rparr>,
              routine3]"
    "filter (\<lambda>r. r_userId r \<noteq> ''u1'') (routines server0) = [routine3]"
    by (simp_all add: server0_def routine1_def routine2_def routine3_def env0_def
        JSON_stringify_def)
  have t: "trainees server0 = [alice, bob]" "now env0 = 5000"
    "JSON_stringify [sunday] = JSON [sunday]"
    by (simp_all add: server0_def env0_def JSON_stringify_def)
  from routines_of_trainee_all_match
    [where e = env0 and s = server0 and token = "''tok''"
       and decoded = "\<lparr>u_traineeId = ''u1'', u_email = ''a@x.com''\<rparr>"
       and availability = "[sunday]" and trainee_id = "''u1''" and first = routine1]
  show ?thesis
    unfolding m by (simp add: a f i t)
qed

end
